theory Spec2Isabelle
  imports Main "HOL-Library.Option_ord" "HOL-Library.Product_Lexorder" "HOL-Library.Multiset"
    "HOL-Library.Sublist"
begin

section \<open>Data model\<close>

text \<open>
  The backend keeps its data in MongoDB collections through Mongoose models.  A collection
  is a list of documents here, in insertion order; every document carries its \<open>_id\<close>.
  Instants (JavaScript \<open>Date\<close> values) are milliseconds as integers, an absent or
  \<open>null\<close> field is \<open>None\<close>.  Quantities and costs are JavaScript numbers, that is
  IEEE doubles, in the code; here they are whole numbers, type \<open>int\<close>.  On whole numbers
  of magnitude at most \<open>2^53\<close> the doubles add, subtract, multiply and compare exactly as
  the integers do; fractional quantities, whose sums the doubles round, are outside the
  model.  Each operation reads the clock once: its instant \<open>now\<close> is a parameter.
  Database calls themselves are taken to succeed.
\<close>

type_synonym object_id = nat
type_synonym instant = int

text \<open>
  Modelled from the spec: the schema of \<open>InventoryItem\<close> (inventoryItem.model.js) is
  not among the source files; the status values are the five the spec lists, the fields are
  the ones the controllers and utilities read and write.
\<close>

datatype item_status = Active | Low_stock | Out_of_stock | Expired | Discontinued

record inventoryItem =
  item_id :: object_id
  item_name :: string
  item_unit :: string
  currentStock :: int
  item_quantity :: int
  minThreshold :: int
  item_cost :: "int option"
  item_expiryDate :: "instant option"
  item_status :: item_status
  lastUpdatedBy :: "object_id option"

text \<open>\<open>DailyInventoryEntry\<close> (dailyInventoryEntry.model.js), with the \<open>createdAt\<close>
  stamp of \<open>timestamps: true\<close>.\<close>

record dailyInventoryEntry =
  entry_id :: object_id
  entry_date :: instant
  entry_inventoryItem :: object_id
  entry_quantity :: int
  entry_cost :: "int option"
  entry_expiryDate :: "instant option"
  remainingQuantity :: int
  addedBy :: object_id
  createdAt :: instant

text \<open>\<open>DayStatus\<close> (dayStatus.model.js).\<close>

record dayStatus =
  day_date :: instant
  isEnded :: bool
  endedAt :: "instant option"
  endedBy :: "object_id option"

text \<open>\<open>Inventorylog\<close> and \<open>WasteLog\<close> documents as the code creates them.\<close>

datatype log_reason =
    Used_in_order string
  | Restored_due_to_cancellation object_id
  | Item_expired_moved_to_waste

record inventorylog =
  log_ingredient :: object_id
  log_change :: int
  log_reason :: log_reason
  log_date :: instant

record wasteLog =
  waste_ingredient :: object_id
  waste_category :: string
  waste_quantity :: int
  waste_unit :: string
  waste_loggedBy :: "object_id option"
  waste_loggedAt :: instant
  waste_expiredOn :: instant

section \<open>Clock helpers\<close>

definition day_ms :: int where
  "day_ms = 86400000"

text \<open>\<open>getTodayDate\<close>: the current instant with the time of day set to zero.  Instants
  are local-time milliseconds, every day has 24 hours.\<close>

definition getTodayDate :: "instant \<Rightarrow> instant" where
  "getTodayDate now = now - now mod day_ms"

text \<open>The test \<open>d && new Date(d) < now\<close>: a \<open>null\<close> date never is in the past.\<close>

fun date_passed :: "instant option \<Rightarrow> instant \<Rightarrow> bool" where
  "date_passed None now = False"
| "date_passed (Some d) now = (d < now)"

section \<open>Daily ledger: FIFO deduction\<close>

text \<open>
  \<open>DailyInventoryEntry.find({...}).sort({ expiryDate: 1, createdAt: 1 })\<close>.
  MongoDB's ascending sort follows the BSON comparison order, in which \<open>null\<close> (and a
  missing field) comes before every date; \<open>addItemToToday\<close> stores \<open>null\<close> for an
  entry without expiry.  The order on \<open>instant option\<close> used here is the same:
  \<open>None\<close> is least.  Ties keep the order of the collection.
\<close>

definition sort_entries :: "dailyInventoryEntry list \<Rightarrow> dailyInventoryEntry list" where
  "sort_entries es = sort_key (\<lambda>e. (entry_expiryDate e, createdAt e)) es"

definition deduct_query ::
  "instant \<Rightarrow> object_id \<Rightarrow> dailyInventoryEntry list \<Rightarrow> dailyInventoryEntry list" where
  "deduct_query today inventoryItemId coll =
     sort_entries (filter (\<lambda>e. entry_date e = today
                              \<and> entry_inventoryItem e = inventoryItemId
                              \<and> remainingQuantity e > 0) coll)"

text \<open>\<open>entry.save()\<close>: the stored document with the same \<open>_id\<close> is replaced.\<close>

definition save_entry ::
  "dailyInventoryEntry \<Rightarrow> dailyInventoryEntry list \<Rightarrow> dailyInventoryEntry list" where
  "save_entry e coll = map (\<lambda>x. if entry_id x = entry_id e then e else x) coll"

text \<open>
  The \<open>for (const entry of entries)\<close> loop of \<open>deductFromDailyInventory\<close>: the
  documents of the query result are walked in order, \<open>remainingToDeduct\<close> and the
  collection are threaded through.
\<close>

fun deduct_loop ::
  "instant \<Rightarrow> dailyInventoryEntry list \<Rightarrow> int \<Rightarrow> dailyInventoryEntry list
     \<Rightarrow> int \<times> dailyInventoryEntry list" where
  "deduct_loop now [] remainingToDeduct coll = (remainingToDeduct, coll)"
| "deduct_loop now (entry # entries) remainingToDeduct coll =
     (if remainingToDeduct \<le> 0 then (remainingToDeduct, coll)
      else if date_passed (entry_expiryDate entry) now
        then deduct_loop now entries remainingToDeduct coll
      else
        (let deductAmount = min (remainingQuantity entry) remainingToDeduct
         in deduct_loop now entries (remainingToDeduct - deductAmount)
              (save_entry (entry\<lparr>remainingQuantity := remainingQuantity entry - deductAmount\<rparr>)
                 coll)))"


section \<open>Menu, orders and the database state\<close>

text \<open>
  Modelled from the spec: the schemas of \<open>MenuItem\<close>, \<open>Order\<close> and \<open>Sales\<close> are not
  among the source files.  A menu item is a recipe, a list of (stock item, quantity per
  dish, unit) triples; an order holds the fields the controller writes, and is created with
  status \<open>pending\<close>.  Order statuses are the strings the controller compares.
\<close>

record recipe_ingredient =
  ing_ingredient :: object_id
  ing_quantity :: int
  ing_unit :: string

record menuItem =
  menu_id :: object_id
  menu_name :: string
  ingredients :: "recipe_ingredient list"

record order_line =
  line_menuItem :: object_id
  line_quantity :: int
  unitPrice :: int
  totalPrice :: int

record order =
  order_id :: object_id
  customerName :: string
  customerPhone :: "string option"
  customerEmail :: "string option"
  orderType :: string
  order_items :: "order_line list"
  subtotal :: int
  tax :: int
  discount :: int
  totalAmount :: int
  order_notes :: string
  order_status :: string
  createdBy :: object_id
  updatedBy :: "object_id option"
  restaurant :: string
  estimatedTime :: "instant option"
  actualDeliveryTime :: "instant option"

record sale =
  sale_product :: object_id
  quantitySold :: int
  saleDate :: instant

text \<open>The authenticated user of a request (\<open>req.user\<close>); an empty restaurant string
  stands for a missing one.\<close>

record user =
  user_id :: object_id
  user_restaurant :: string

text \<open>What \<open>checkIngredientAvailability\<close> reports for an ingredient that cannot be
  served.\<close>

record missing_ingredient =
  mi_ingredient :: object_id
  mi_name :: string
  mi_required :: int
  mi_available :: int
  mi_unit :: string
  mi_reason :: string

text \<open>
  Every \<open>throw\<close> of the modelled functions.  \<open>Type_error\<close> is JavaScript's own
  \<open>TypeError\<close> (a property read on \<open>null\<close>); the others are \<open>apiError\<close> values,
  told apart by their message.
\<close>

datatype api_error =
    Insufficient_daily_stock int int
  | Today_already_ended
  | Yesterday_not_ended
  | Type_error
  | Authentication_required
  | Restaurant_missing
  | Customer_and_items_required
  | Menu_item_id_required
  | Invalid_item_quantity
  | Invalid_unit_price
  | Menu_item_not_found "object_id option"
  | No_ingredients_configured string
  | Dish_out_of_stock string "missing_ingredient list"
  | Insufficient_stock string int int
  | Status_required
  | Invalid_status
  | Order_not_found
  | Cannot_edit_order

fun instanceof_apiError :: "api_error \<Rightarrow> bool" where
  "instanceof_apiError Type_error = False"
| "instanceof_apiError e = True"

text \<open>The \<open>console.error\<close> calls of the modelled functions.\<close>

datatype console_msg =
    Menu_item_missing_during_deduction "object_id option"
  | Invalid_ingredient_reference string
  | Error_updating_inventory object_id api_error
  | Error_deducting_daily_inventory object_id api_error
  | Error_processing_order_item object_id api_error
  | Error_processing_expired_item object_id

text \<open>The collections, the console, and the source of fresh \<open>_id\<close> values.\<close>

record db =
  inventoryItems :: "inventoryItem list"
  dailyEntries :: "dailyInventoryEntry list"
  dayStatuses :: "dayStatus list"
  menuItems :: "menuItem list"
  orders :: "order list"
  inventoryLogs :: "inventorylog list"
  wasteLogs :: "(object_id \<times> wasteLog) list"
  sales :: "sale list"
  console :: "console_msg list"
  next_id :: object_id

definition findById_item :: "object_id \<Rightarrow> db \<Rightarrow> inventoryItem option" where
  "findById_item k s = find (\<lambda>i. item_id i = k) (inventoryItems s)"

definition findById_menu :: "object_id \<Rightarrow> db \<Rightarrow> menuItem option" where
  "findById_menu k s = find (\<lambda>m. menu_id m = k) (menuItems s)"

definition findById_order :: "object_id \<Rightarrow> db \<Rightarrow> order option" where
  "findById_order k s = find (\<lambda>ord. order_id ord = k) (orders s)"

text \<open>\<open>InventoryItem.findByIdAndUpdate(id, ...)\<close>: the document with that \<open>_id\<close> is
  updated, nothing happens when there is none.\<close>

definition findByIdAndUpdate_item ::
  "object_id \<Rightarrow> (inventoryItem \<Rightarrow> inventoryItem) \<Rightarrow> db \<Rightarrow> db" where
  "findByIdAndUpdate_item k f s =
     s\<lparr>inventoryItems := map (\<lambda>i. if item_id i = k then f i else i) (inventoryItems s)\<rparr>"

definition findByIdAndUpdate_order :: "object_id \<Rightarrow> (order \<Rightarrow> order) \<Rightarrow> db \<Rightarrow> db" where
  "findByIdAndUpdate_order k f s =
     s\<lparr>orders := map (\<lambda>ord. if order_id ord = k then f ord else ord) (orders s)\<rparr>"

text \<open>\<open>$inc: { currentStock: d }\<close> with \<open>lastUpdatedBy\<close>.  The code adds doubles; the
  sum is the integer sum as long as the stock, \<open>d\<close> and the result are whole numbers of
  magnitude at most \<open>2^53\<close>, which the statements that depend on it require.\<close>

definition inc_currentStock :: "object_id \<Rightarrow> int \<Rightarrow> object_id option \<Rightarrow> db \<Rightarrow> db" where
  "inc_currentStock k d by s =
     findByIdAndUpdate_item k
       (\<lambda>i. i\<lparr>currentStock := currentStock i + d, lastUpdatedBy := by\<rparr>) s"

definition console_error :: "console_msg \<Rightarrow> db \<Rightarrow> db" where
  "console_error m s = s\<lparr>console := console s @ [m]\<rparr>"

definition create_inventorylog :: "inventorylog \<Rightarrow> db \<Rightarrow> db" where
  "create_inventorylog l s = s\<lparr>inventoryLogs := inventoryLogs s @ [l]\<rparr>"

section \<open>deductFromDailyInventory\<close>

text \<open>
  Modelled from the spec: the controller exports this function wrapped in \<open>asyncHandler\<close>,
  a utility that is not among the source files.  The spec has \<open>deduct\<close> fail towards its
  caller, so the wrapper is taken to hand the result and the error of the wrapped function
  through; the definition is the wrapped function itself, its \<open>throw\<close> being the \<open>Inl\<close>
  result.  The error message carries \<open>Required: quantity\<close> and
  \<open>Available: quantity - remainingToDeduct\<close>.
\<close>

definition deductFromDailyInventory ::
  "instant \<Rightarrow> object_id \<Rightarrow> int \<Rightarrow> object_id \<Rightarrow> db \<Rightarrow> (api_error + unit) \<times> db" where
  "deductFromDailyInventory now inventoryItemId quantity userId s =
     (let today = getTodayDate now;
          entries = deduct_query today inventoryItemId (dailyEntries s);
          (remainingToDeduct, coll) = deduct_loop now entries quantity (dailyEntries s);
          s1 = s\<lparr>dailyEntries := coll\<rparr>
      in if remainingToDeduct > 0
         then (Inl (Insufficient_daily_stock quantity (quantity - remainingToDeduct)), s1)
         else (Inr (), inc_currentStock inventoryItemId (- quantity) (Some userId) s1))"

section \<open>Day boundary: startNewDay\<close>

record carried_item =
  carried_itemName :: string
  carried_quantity :: int
  carried_unit :: string

record start_day_response =
  resp_date :: instant
  carriedForwardCount :: nat
  carriedForward :: "carried_item list"

definition day_isEnded :: "instant \<Rightarrow> db \<Rightarrow> bool" where
  "day_isEnded d s =
     (case find (\<lambda>x. day_date x = d) (dayStatuses s) of
        None \<Rightarrow> False
      | Some x \<Rightarrow> isEnded x)"

text \<open>\<open>DailyInventoryEntry.create\<close> of the carry-forward: a fresh batch for today.\<close>

definition carried_entry ::
  "object_id \<Rightarrow> instant \<Rightarrow> instant \<Rightarrow> object_id \<Rightarrow> dailyInventoryEntry
     \<Rightarrow> dailyInventoryEntry" where
  "carried_entry new_id now today userId entry =
     \<lparr>entry_id = new_id,
      entry_date = today,
      entry_inventoryItem = entry_inventoryItem entry,
      entry_quantity = remainingQuantity entry,
      entry_cost = entry_cost entry,
      entry_expiryDate = entry_expiryDate entry,
      remainingQuantity = remainingQuantity entry,
      addedBy = userId,
      createdAt = now\<rparr>"

text \<open>
  The carry-forward loop.  The entries were loaded with \<open>populate('inventoryItem')\<close>, so
  \<open>entry.inventoryItem\<close> is \<open>null\<close> when the stock item has been deleted
  (\<open>deleteInventoryItem\<close> leaves the ledger alone), and \<open>entry.inventoryItem._id\<close>
  then throws.
\<close>

fun carry_loop ::
  "instant \<Rightarrow> instant \<Rightarrow> object_id \<Rightarrow> dailyInventoryEntry list \<Rightarrow> carried_item list \<Rightarrow> db
     \<Rightarrow> (api_error + carried_item list) \<times> db" where
  "carry_loop now today userId [] carried s = (Inr carried, s)"
| "carry_loop now today userId (entry # entries) carried s =
     (if date_passed (entry_expiryDate entry) now
      then carry_loop now today userId entries carried s
      else
        (case findById_item (entry_inventoryItem entry) s of
           None \<Rightarrow> (Inl Type_error, s)
         | Some item \<Rightarrow>
             carry_loop now today userId entries
               (carried @ [\<lparr>carried_itemName = item_name item,
                            carried_quantity = remainingQuantity entry,
                            carried_unit = item_unit item\<rparr>])
               (s\<lparr>dailyEntries :=
                    dailyEntries s @ [carried_entry (next_id s) now today userId entry],
                  next_id := Suc (next_id s)\<rparr>)))"

definition startNewDay :: "instant \<Rightarrow> user \<Rightarrow> db \<Rightarrow> (api_error + start_day_response) \<times> db" where
  "startNewDay now req_user s =
     (let today = getTodayDate now;
          yesterday = today - day_ms
      in if day_isEnded today s then (Inl Today_already_ended, s)
         else if \<not> day_isEnded yesterday s then (Inl Yesterday_not_ended, s)
         else
           (let yesterdayEntries =
                  filter (\<lambda>e. entry_date e = yesterday \<and> remainingQuantity e > 0)
                    (dailyEntries s)
            in case carry_loop now today (user_id req_user) yesterdayEntries [] s of
                 (Inl err, s') \<Rightarrow> (Inl err, s')
               | (Inr carried, s') \<Rightarrow>
                   (Inr \<lparr>resp_date = today,
                         carriedForwardCount = length carried,
                         carriedForward = carried\<rparr>, s')))"


section \<open>Expiry reconciliation\<close>

record processed_item =
  processed_itemId :: object_id
  processed_name :: string
  processed_quantity :: int
  processed_unit :: string
  processed_wasteCost :: int
  processed_wasteLogId :: object_id

record sweep_result =
  success :: bool
  processedCount :: nat
  totalWasteCost :: int
  processedItems :: "processed_item list"

text \<open>The query of \<open>processExpiredItems\<close>: \<open>expiryDate < now\<close>, \<open>currentStock > 0\<close>,
  \<open>status \<noteq> discontinued\<close>.  A \<open>null\<close> expiry does not match \<open>$lt\<close>.\<close>

definition expired_with_stock :: "instant \<Rightarrow> inventoryItem \<Rightarrow> bool" where
  "expired_with_stock now i =
     (date_passed (item_expiryDate i) now \<and> currentStock i > 0 \<and> item_status i \<noteq> Discontinued)"

text \<open>\<open>item.cost ? wasteQuantity * item.cost : 0\<close>: a missing or zero cost gives 0.\<close>

definition waste_cost :: "inventoryItem \<Rightarrow> int" where
  "waste_cost item =
     (case item_cost item of
        None \<Rightarrow> 0
      | Some c \<Rightarrow> if c = 0 then 0 else currentStock item * c)"

text \<open>
  The loop over the selected items.  \<open>totalWasteCost\<close> is increased first; building the
  waste log reads \<open>item.expiryDate.toLocaleDateString()\<close>, which throws on an item without
  expiry date, and the inner \<open>catch\<close> then logs and goes on to the next item.
\<close>

fun process_loop ::
  "instant \<Rightarrow> object_id option \<Rightarrow> inventoryItem list \<Rightarrow> processed_item list \<Rightarrow> int \<Rightarrow> db
     \<Rightarrow> (processed_item list \<times> int) \<times> db" where
  "process_loop now loggedByUserId [] processed totalCost s = ((processed, totalCost), s)"
| "process_loop now loggedByUserId (item # items) processed totalCost s =
     (let wasteQuantity = currentStock item;
          wasteCost = waste_cost item;
          totalCost' = totalCost + wasteCost
      in case item_expiryDate item of
           None \<Rightarrow>
             process_loop now loggedByUserId items processed totalCost'
               (console_error (Error_processing_expired_item (item_id item)) s)
         | Some expiry \<Rightarrow>
             (let wasteLogId = next_id s;
                  s1 = s\<lparr>wasteLogs := wasteLogs s @
                            [(wasteLogId,
                              \<lparr>waste_ingredient = item_id item,
                               waste_category = ''expired'',
                               waste_quantity = wasteQuantity,
                               waste_unit = item_unit item,
                               waste_loggedBy = loggedByUserId,
                               waste_loggedAt = now,
                               waste_expiredOn = expiry\<rparr>)],
                         next_id := Suc (next_id s)\<rparr>;
                  s2 = create_inventorylog
                         \<lparr>log_ingredient = item_id item,
                          log_change = - wasteQuantity,
                          log_reason = Item_expired_moved_to_waste,
                          log_date = now\<rparr> s1;
                  s3 = findByIdAndUpdate_item (item_id item)
                         (\<lambda>i. i\<lparr>currentStock := 0, item_quantity := 0,
                                 item_status := Expired, lastUpdatedBy := loggedByUserId\<rparr>) s2
              in process_loop now loggedByUserId items
                   (processed @ [\<lparr>processed_itemId = item_id item,
                                   processed_name = item_name item,
                                   processed_quantity = wasteQuantity,
                                   processed_unit = item_unit item,
                                   processed_wasteCost = wasteCost,
                                   processed_wasteLogId = wasteLogId\<rparr>])
                   totalCost' s3))"

definition processExpiredItems :: "instant \<Rightarrow> object_id option \<Rightarrow> db \<Rightarrow> sweep_result \<times> db" where
  "processExpiredItems now loggedByUserId s =
     (let expiredItems = filter (expired_with_stock now) (inventoryItems s);
          ((processed, totalCost), s') = process_loop now loggedByUserId expiredItems [] 0 s
      in (\<lparr>success = True,
           processedCount = length processed,
           totalWasteCost = totalCost,
           processedItems = processed\<rparr>, s'))"

text \<open>
  \<open>checkExpiredItems\<close>: one \<open>updateMany\<close>.  Its filter is the object literal
  \<open>{ $ne: 'expired', $ne: 'discontinued' }\<close>, in which the second \<open>$ne\<close> replaces the
  first, so the filter is \<open>expiryDate < now\<close> and \<open>status \<noteq> discontinued\<close>.
\<close>

definition checkExpiredItems :: "instant \<Rightarrow> db \<Rightarrow> db" where
  "checkExpiredItems now s =
     s\<lparr>inventoryItems :=
         map (\<lambda>i. if date_passed (item_expiryDate i) now \<and> item_status i \<noteq> Discontinued
                   then i\<lparr>item_status := Expired\<rparr> else i)
           (inventoryItems s)\<rparr>"

text \<open>The invariant the spec states for stock items.\<close>

definition stock_invariant :: "db \<Rightarrow> bool" where
  "stock_invariant s =
     list_all (\<lambda>i. item_status i = Expired \<longrightarrow> currentStock i = 0) (inventoryItems s)"

section \<open>Availability checker\<close>

record availability =
  isAvailable :: bool
  stockStatus :: string
  missingIngredients :: "missing_ingredient list"

text \<open>The loop of \<open>checkIngredientAvailability\<close> with its three accumulators
  \<open>missingIngredients\<close>, \<open>hasLowStock\<close>, \<open>hasOutOfStock\<close>.\<close>

fun check_loop ::
  "instant \<Rightarrow> db \<Rightarrow> int \<Rightarrow> recipe_ingredient list \<Rightarrow> missing_ingredient list \<Rightarrow> bool \<Rightarrow> bool
     \<Rightarrow> missing_ingredient list \<times> bool \<times> bool" where
  "check_loop now s quantity [] missing hasLowStock hasOutOfStock =
     (missing, hasLowStock, hasOutOfStock)"
| "check_loop now s quantity (ingredient # rest) missing hasLowStock hasOutOfStock =
     (case findById_item (ing_ingredient ingredient) s of
        None \<Rightarrow>
          check_loop now s quantity rest
            (missing @ [\<lparr>mi_ingredient = ing_ingredient ingredient,
                         mi_name = ''Unknown Ingredient'',
                         mi_required = ing_quantity ingredient * quantity,
                         mi_available = 0,
                         mi_unit = ing_unit ingredient,
                         mi_reason = ''Ingredient not found in inventory''\<rparr>])
            hasLowStock True
      | Some inventoryItem \<Rightarrow>
          if date_passed (item_expiryDate inventoryItem) now
               \<or> item_status inventoryItem = Expired
          then
            check_loop now s quantity rest
              (missing @ [\<lparr>mi_ingredient = ing_ingredient ingredient,
                           mi_name = item_name inventoryItem,
                           mi_required = ing_quantity ingredient * quantity,
                           mi_available = 0,
                           mi_unit = ing_unit ingredient,
                           mi_reason = ''Ingredient expired''\<rparr>])
              hasLowStock True
          else
            (let requiredQuantity = ing_quantity ingredient * quantity;
                 availableQuantity = currentStock inventoryItem
             in if availableQuantity < requiredQuantity
                then
                  check_loop now s quantity rest
                    (missing @ [\<lparr>mi_ingredient = ing_ingredient ingredient,
                                 mi_name = item_name inventoryItem,
                                 mi_required = requiredQuantity,
                                 mi_available = availableQuantity,
                                 mi_unit = ing_unit ingredient,
                                 mi_reason = (if availableQuantity = 0 then ''Out of stock''
                                              else ''Insufficient quantity'')\<rparr>])
                    (if availableQuantity = 0 then hasLowStock else True)
                    (if availableQuantity = 0 then True else hasOutOfStock)
                else if item_status inventoryItem = Low_stock
                        \<or> (minThreshold inventoryItem > 0
                            \<and> availableQuantity \<le> minThreshold inventoryItem)
                then check_loop now s quantity rest missing True hasOutOfStock
                else check_loop now s quantity rest missing hasLowStock hasOutOfStock))"

definition checkIngredientAvailability ::
  "instant \<Rightarrow> db \<Rightarrow> recipe_ingredient list \<Rightarrow> int \<Rightarrow> availability" where
  "checkIngredientAvailability now s ingreds quantity =
     (case check_loop now s quantity ingreds [] False False of
        (missing, hasLowStock, hasOutOfStock) \<Rightarrow>
          if hasOutOfStock \<or> length missing > 0
          then \<lparr>isAvailable = False, stockStatus = ''out_of_stock'',
                missingIngredients = missing\<rparr>
          else if hasLowStock
          then \<lparr>isAvailable = True, stockStatus = ''low_stock'', missingIngredients = missing\<rparr>
          else \<lparr>isAvailable = True, stockStatus = ''available'', missingIngredients = missing\<rparr>)"


section \<open>Order lifecycle: createOrder\<close>

text \<open>The request body.  A missing \<open>menuItem\<close> is \<open>None\<close>; a missing quantity or unit
  price is 0 and an absent string is empty, which the truthiness tests of \<open>createOrder\<close>
  treat alike.\<close>

record order_item_request =
  ri_menuItem :: "object_id option"
  ri_quantity :: int
  ri_unitPrice :: int

record order_request =
  rq_customerName :: string
  rq_customerPhone :: "string option"
  rq_customerEmail :: "string option"
  rq_orderType :: string
  rq_items :: "order_item_request list"
  rq_notes :: string

text \<open>The first loop of \<open>createOrder\<close>: validation and availability of every line,
  without any write.\<close>

fun validate_items ::
  "instant \<Rightarrow> db \<Rightarrow> order_item_request list \<Rightarrow> order_line list \<Rightarrow> int
     \<Rightarrow> api_error + (order_line list \<times> int)" where
  "validate_items now s [] validatedItems sub = Inr (validatedItems, sub)"
| "validate_items now s (orderItem # rest) validatedItems sub =
     (case ri_menuItem orderItem of
        None \<Rightarrow> Inl Menu_item_id_required
      | Some menuItemId \<Rightarrow>
          if ri_quantity orderItem < 1 then Inl Invalid_item_quantity
          else if ri_unitPrice orderItem = 0 \<or> ri_unitPrice orderItem < 0
            then Inl Invalid_unit_price
          else
            (case findById_menu menuItemId s of
               None \<Rightarrow> Inl (Menu_item_not_found (Some menuItemId))
             | Some menuItem \<Rightarrow>
                 if ingredients menuItem = []
                 then Inl (No_ingredients_configured (menu_name menuItem))
                 else
                   (let stockCheck =
                          checkIngredientAvailability now s (ingredients menuItem)
                            (ri_quantity orderItem)
                    in if \<not> isAvailable stockCheck
                       then Inl (Dish_out_of_stock (menu_name menuItem)
                                   (missingIngredients stockCheck))
                       else
                         (let lineTotal = ri_quantity orderItem * ri_unitPrice orderItem
                          in validate_items now s rest
                               (validatedItems @
                                  [\<lparr>line_menuItem = menuItemId,
                                    line_quantity = ri_quantity orderItem,
                                    unitPrice = ri_unitPrice orderItem,
                                    totalPrice = lineTotal\<rparr>])
                               (sub + lineTotal)))))"

text \<open>
  The ingredient loop of the deduction step.  \<open>menuItem.ingredients\<close> was loaded with
  \<open>populate\<close>, so the reference of a stock item that does not exist is \<open>null\<close> and the
  ingredient is passed over with a console message; the later
  \<open>InventoryItem.findById\<close> reads the same collection.  An \<open>apiError\<close> leaves the loop
  (the inner \<open>catch\<close> throws it again), any other error is logged and the loop goes on.
\<close>

fun deduct_ingredients ::
  "instant \<Rightarrow> object_id \<Rightarrow> menuItem \<Rightarrow> int \<Rightarrow> recipe_ingredient list \<Rightarrow> db
     \<Rightarrow> (api_error + unit) \<times> db" where
  "deduct_ingredients now userId menuItem lineQuantity [] s = (Inr (), s)"
| "deduct_ingredients now userId menuItem lineQuantity (ingredient # rest) s =
     (case findById_item (ing_ingredient ingredient) s of
        None \<Rightarrow>
          deduct_ingredients now userId menuItem lineQuantity rest
            (console_error (Invalid_ingredient_reference (menu_name menuItem)) s)
      | Some inventoryItem \<Rightarrow>
          (let ingredientId = ing_ingredient ingredient;
               requiredQuantity = ing_quantity ingredient * lineQuantity
           in if currentStock inventoryItem < requiredQuantity
              then
                (let err = Insufficient_stock (item_name inventoryItem)
                             (currentStock inventoryItem) requiredQuantity
                 in (Inl err, console_error (Error_updating_inventory ingredientId err) s))
              else
                (case deductFromDailyInventory now ingredientId requiredQuantity userId s of
                   (Inl err, s1) \<Rightarrow>
                     (let s2 = console_error (Error_updating_inventory ingredientId err) s1
                      in if instanceof_apiError err then (Inl err, s2)
                         else deduct_ingredients now userId menuItem lineQuantity rest s2)
                 | (Inr u, s1) \<Rightarrow>
                     deduct_ingredients now userId menuItem lineQuantity rest
                       (create_inventorylog
                          \<lparr>log_ingredient = ingredientId,
                           log_change = - requiredQuantity,
                           log_reason = Used_in_order (menu_name menuItem),
                           log_date = now\<rparr> s1))))"

text \<open>
  The second loop of \<open>createOrder\<close>, over the request's lines.  Whatever is thrown while
  a line is processed is caught by the outer \<open>catch\<close>, logged, and the loop goes on with
  the next line; the sales record of a line is written when its ingredient loop has ended
  without a throw.  Of the sales record the product, quantity and date are kept (weekday
  and season are computed from the date).
\<close>

fun deduct_order_items :: "instant \<Rightarrow> object_id \<Rightarrow> order_item_request list \<Rightarrow> db \<Rightarrow> db" where
  "deduct_order_items now userId [] s = s"
| "deduct_order_items now userId (orderItem # rest) s =
     (case (case ri_menuItem orderItem of
              None \<Rightarrow> None
            | Some menuItemId \<Rightarrow> findById_menu menuItemId s) of
        None \<Rightarrow>
          deduct_order_items now userId rest
            (console_error (Menu_item_missing_during_deduction (ri_menuItem orderItem)) s)
      | Some menuItem \<Rightarrow>
          (case deduct_ingredients now userId menuItem (ri_quantity orderItem)
                  (ingredients menuItem) s of
             (Inl err, s1) \<Rightarrow>
               deduct_order_items now userId rest
                 (console_error (Error_processing_order_item (menu_id menuItem) err) s1)
           | (Inr u, s1) \<Rightarrow>
               deduct_order_items now userId rest
                 (s1\<lparr>sales := sales s1 @
                        [\<lparr>sale_product = menu_id menuItem,
                          quantitySold = ri_quantity orderItem,
                          saleDate = now\<rparr>]\<rparr>)))"

definition createOrder ::
  "instant \<Rightarrow> user option \<Rightarrow> order_request \<Rightarrow> db \<Rightarrow> (api_error + order) \<times> db" where
  "createOrder now req_user body s =
     (case req_user of
        None \<Rightarrow> (Inl Authentication_required, s)
      | Some u \<Rightarrow>
          if user_restaurant u = [] then (Inl Restaurant_missing, s)
          else if rq_customerName body = [] \<or> rq_items body = []
            then (Inl Customer_and_items_required, s)
          else
            (case validate_items now s (rq_items body) [] 0 of
               Inl err \<Rightarrow> (Inl err, s)
             | Inr (validatedItems, sub) \<Rightarrow>
                 (let new_order =
                        \<lparr>order_id = next_id s,
                         customerName = rq_customerName body,
                         customerPhone = rq_customerPhone body,
                         customerEmail = rq_customerEmail body,
                         orderType = (if rq_orderType body = [] then ''dine-in''
                                      else rq_orderType body),
                         order_items = validatedItems,
                         subtotal = sub,
                         tax = 0,
                         discount = 0,
                         totalAmount = sub,
                         order_notes = rq_notes body,
                         order_status = ''pending'',
                         createdBy = user_id u,
                         updatedBy = None,
                         restaurant = user_restaurant u,
                         estimatedTime = None,
                         actualDeliveryTime = None\<rparr>;
                      s1 = s\<lparr>orders := orders s @ [new_order], next_id := Suc (next_id s)\<rparr>
                  in (Inr new_order, deduct_order_items now (user_id u) (rq_items body) s1))))"

section \<open>Order lifecycle: updateOrderStatus\<close>

definition validStatuses :: "string list" where
  "validStatuses =
     [''pending'', ''confirmed'', ''preparing'', ''ready'', ''delivered'', ''cancelled'']"

text \<open>The restoration loops of a cancellation.  An ingredient whose stock item does not
  exist (a \<open>null\<close> reference after \<open>populate\<close>) and a product that is not positive are
  passed over.\<close>

fun restore_ingredients ::
  "instant \<Rightarrow> object_id \<Rightarrow> object_id \<Rightarrow> int \<Rightarrow> recipe_ingredient list \<Rightarrow> db \<Rightarrow> db" where
  "restore_ingredients now userId orderId lineQuantity [] s = s"
| "restore_ingredients now userId orderId lineQuantity (ingredient # rest) s =
     (case findById_item (ing_ingredient ingredient) s of
        None \<Rightarrow> restore_ingredients now userId orderId lineQuantity rest s
      | Some inventoryItem \<Rightarrow>
          (let ingredientId = ing_ingredient ingredient;
               restoredQuantity = ing_quantity ingredient * lineQuantity
           in if restoredQuantity \<le> 0
              then restore_ingredients now userId orderId lineQuantity rest s
              else restore_ingredients now userId orderId lineQuantity rest
                     (create_inventorylog
                        \<lparr>log_ingredient = ingredientId,
                         log_change = restoredQuantity,
                         log_reason = Restored_due_to_cancellation orderId,
                         log_date = now\<rparr>
                        (inc_currentStock ingredientId restoredQuantity (Some userId) s))))"

fun restore_order_items ::
  "instant \<Rightarrow> object_id \<Rightarrow> object_id \<Rightarrow> order_line list \<Rightarrow> db \<Rightarrow> db" where
  "restore_order_items now userId orderId [] s = s"
| "restore_order_items now userId orderId (orderItem # rest) s =
     (case findById_menu (line_menuItem orderItem) s of
        None \<Rightarrow> restore_order_items now userId orderId rest s
      | Some menuItem \<Rightarrow>
          restore_order_items now userId orderId rest
            (restore_ingredients now userId orderId (line_quantity orderItem)
               (ingredients menuItem) s))"

definition updateOrderStatus ::
  "instant \<Rightarrow> user \<Rightarrow> object_id \<Rightarrow> string \<Rightarrow> instant option \<Rightarrow> string \<Rightarrow> db
     \<Rightarrow> (api_error + order) \<times> db" where
  "updateOrderStatus now req_user orderId status est notes s =
     (if status = [] then (Inl Status_required, s)
      else if status \<notin> set validStatuses then (Inl Invalid_status, s)
      else
        (case findById_order orderId s of
           None \<Rightarrow> (Inl Order_not_found, s)
         | Some existingOrder \<Rightarrow>
             (let s1 = (if status = ''cancelled'' \<and> order_status existingOrder \<noteq> ''cancelled''
                        then restore_order_items now (user_id req_user) orderId
                               (order_items existingOrder) s
                        else s);
                  updateData =
                    (\<lambda>ord. ord\<lparr>order_status := status,
                                updatedBy := Some (user_id req_user),
                                estimatedTime := (case est of None \<Rightarrow> estimatedTime ord
                                                  | Some t \<Rightarrow> Some t),
                                order_notes := (if notes = [] then order_notes ord else notes),
                                actualDeliveryTime :=
                                  (if status = ''delivered'' then Some now
                                   else actualDeliveryTime ord)\<rparr>)
              in (Inr (updateData existingOrder), findByIdAndUpdate_order orderId updateData s1))))"


section \<open>Order lifecycle: updateOrder\<close>

text \<open>The body of an edit request.  An empty item list, an empty name or order type stand
  for absent ones; the other fields are optional.  \<open>updateOrder\<close> does not validate the
  lines it is given, so here a missing quantity is not the same as 0: the code then checks
  the availability of one dish (the default of \<open>checkIngredientAvailability\<close>) and goes on
  computing with \<open>undefined\<close>.  The model of the edit covers the requests whose lines all
  carry their quantity and unit price.\<close>

record order_update =
  up_customerName :: string
  up_customerPhone :: "string option"
  up_customerEmail :: "string option"
  up_orderType :: string
  up_items :: "order_item_request list"
  up_notes :: "string option"
  up_tax :: "int option"
  up_discount :: "int option"

text \<open>Restoring the ingredients of the current lines.  Here \<open>ingredient.ingredient._id\<close>
  is read without a test, so a \<open>null\<close> reference throws.\<close>

fun edit_restore_ingredients ::
  "object_id \<Rightarrow> int \<Rightarrow> recipe_ingredient list \<Rightarrow> db \<Rightarrow> (api_error + unit) \<times> db" where
  "edit_restore_ingredients userId lineQuantity [] s = (Inr (), s)"
| "edit_restore_ingredients userId lineQuantity (ingredient # rest) s =
     (case findById_item (ing_ingredient ingredient) s of
        None \<Rightarrow> (Inl Type_error, s)
      | Some inventoryItem \<Rightarrow>
          edit_restore_ingredients userId lineQuantity rest
            (inc_currentStock (ing_ingredient ingredient)
               (ing_quantity ingredient * lineQuantity) (Some userId) s))"

fun edit_restore_items :: "object_id \<Rightarrow> order_line list \<Rightarrow> db \<Rightarrow> (api_error + unit) \<times> db" where
  "edit_restore_items userId [] s = (Inr (), s)"
| "edit_restore_items userId (orderItem # rest) s =
     (case findById_menu (line_menuItem orderItem) s of
        None \<Rightarrow> edit_restore_items userId rest s
      | Some menuItem \<Rightarrow>
          (case edit_restore_ingredients userId (line_quantity orderItem)
                  (ingredients menuItem) s of
             (Inl err, s1) \<Rightarrow> (Inl err, s1)
           | (Inr u, s1) \<Rightarrow> edit_restore_items userId rest s1))"

text \<open>Deducting the ingredients of a new line.  A \<open>null\<close> reference throws inside the
  \<open>try\<close> and again in the \<open>catch\<close>, whose message reads the same property.\<close>

fun edit_deduct_ingredients ::
  "instant \<Rightarrow> object_id \<Rightarrow> int \<Rightarrow> recipe_ingredient list \<Rightarrow> db \<Rightarrow> (api_error + unit) \<times> db" where
  "edit_deduct_ingredients now userId lineQuantity [] s = (Inr (), s)"
| "edit_deduct_ingredients now userId lineQuantity (ingredient # rest) s =
     (case findById_item (ing_ingredient ingredient) s of
        None \<Rightarrow> (Inl Type_error, s)
      | Some inventoryItem \<Rightarrow>
          (case deductFromDailyInventory now (ing_ingredient ingredient)
                  (ing_quantity ingredient * lineQuantity) userId s of
             (Inl err, s1) \<Rightarrow>
               (let s2 = console_error
                           (Error_deducting_daily_inventory (ing_ingredient ingredient) err) s1
                in if instanceof_apiError err then (Inl err, s2)
                   else edit_deduct_ingredients now userId lineQuantity rest s2)
           | (Inr u, s1) \<Rightarrow> edit_deduct_ingredients now userId lineQuantity rest s1))"

fun edit_items ::
  "instant \<Rightarrow> object_id \<Rightarrow> order_item_request list \<Rightarrow> order_line list \<Rightarrow> int \<Rightarrow> db
     \<Rightarrow> (api_error + (order_line list \<times> int)) \<times> db" where
  "edit_items now userId [] validatedItems sub s = (Inr (validatedItems, sub), s)"
| "edit_items now userId (orderItem # rest) validatedItems sub s =
     (case (case ri_menuItem orderItem of
              None \<Rightarrow> None
            | Some menuItemId \<Rightarrow> findById_menu menuItemId s) of
        None \<Rightarrow> (Inl (Menu_item_not_found (ri_menuItem orderItem)), s)
      | Some menuItem \<Rightarrow>
          (let stockCheck =
                 checkIngredientAvailability now s (ingredients menuItem) (ri_quantity orderItem)
           in if \<not> isAvailable stockCheck
              then (Inl (Dish_out_of_stock (menu_name menuItem) (missingIngredients stockCheck)),
                    s)
              else
                (let lineTotal = ri_quantity orderItem * ri_unitPrice orderItem
                 in case edit_deduct_ingredients now userId (ri_quantity orderItem)
                           (ingredients menuItem) s of
                      (Inl err, s1) \<Rightarrow> (Inl err, s1)
                    | (Inr u, s1) \<Rightarrow>
                        edit_items now userId rest
                          (validatedItems @
                             [\<lparr>line_menuItem = menu_id menuItem,
                               line_quantity = ri_quantity orderItem,
                               unitPrice = ri_unitPrice orderItem,
                               totalPrice = lineTotal\<rparr>])
                          (sub + lineTotal) s1)))"

text \<open>The fields both branches of \<open>updateOrder\<close> copy from the request when present.\<close>

definition edit_fields :: "object_id \<Rightarrow> order_update \<Rightarrow> order \<Rightarrow> order" where
  "edit_fields userId body ord =
     ord\<lparr>updatedBy := Some userId,
         customerName := (if up_customerName body = [] then customerName ord
                          else up_customerName body),
         customerPhone := (case up_customerPhone body of None \<Rightarrow> customerPhone ord
                           | Some p \<Rightarrow> Some p),
         customerEmail := (case up_customerEmail body of None \<Rightarrow> customerEmail ord
                           | Some m \<Rightarrow> Some m),
         orderType := (if up_orderType body = [] then orderType ord else up_orderType body),
         order_notes := (case up_notes body of None \<Rightarrow> order_notes ord | Some n \<Rightarrow> n),
         tax := (case up_tax body of None \<Rightarrow> tax ord | Some t \<Rightarrow> t),
         discount := (case up_discount body of None \<Rightarrow> discount ord | Some d \<Rightarrow> d)\<rparr>"

text \<open>\<open>x || y\<close> on numbers: \<open>y\<close> when \<open>x\<close> is absent or zero.\<close>

fun or_else :: "int option \<Rightarrow> int \<Rightarrow> int" where
  "or_else None y = y"
| "or_else (Some x) y = (if x = 0 then y else x)"

definition updateOrder ::
  "instant \<Rightarrow> user \<Rightarrow> object_id \<Rightarrow> order_update \<Rightarrow> db \<Rightarrow> (api_error + order) \<times> db" where
  "updateOrder now req_user orderId body s =
     (case find (\<lambda>ord. order_id ord = orderId \<and> restaurant ord = user_restaurant req_user)
             (orders s) of
        None \<Rightarrow> (Inl Order_not_found, s)
      | Some existingOrder \<Rightarrow>
          if order_status existingOrder = ''delivered''
               \<or> order_status existingOrder = ''cancelled''
          then (Inl Cannot_edit_order, s)
          else if up_items body \<noteq> []
          then
            (case edit_restore_items (user_id req_user) (order_items existingOrder) s of
               (Inl err, s1) \<Rightarrow> (Inl err, s1)
             | (Inr u, s1) \<Rightarrow>
                 (case edit_items now (user_id req_user) (up_items body) [] 0 s1 of
                    (Inl err, s2) \<Rightarrow> (Inl err, s2)
                  | (Inr (validatedItems, sub), s2) \<Rightarrow>
                      (let updateData =
                             (\<lambda>ord. (edit_fields (user_id req_user) body ord)
                                \<lparr>order_items := validatedItems,
                                 subtotal := sub,
                                 totalAmount := sub - or_else (up_discount body) 0
                                                  + or_else (up_tax body) 0\<rparr>)
                       in (Inr (updateData existingOrder),
                           findByIdAndUpdate_order orderId updateData s2))))
          else
            (let with_tax =
                   (\<lambda>ord. case up_tax body of
                             None \<Rightarrow> ord
                           | Some t \<Rightarrow>
                               ord\<lparr>totalAmount :=
                                     subtotal existingOrder
                                       - or_else (up_discount body)
                                           (or_else (Some (discount existingOrder)) 0)
                                       + t\<rparr>);
                 with_discount =
                   (\<lambda>ord. case up_discount body of
                             None \<Rightarrow> ord
                           | Some d \<Rightarrow>
                               ord\<lparr>totalAmount :=
                                     subtotal existingOrder - d
                                       + or_else (up_tax body)
                                           (or_else (Some (tax existingOrder)) 0)\<rparr>);
                 updateData =
                   (\<lambda>ord. with_discount (with_tax (edit_fields (user_id req_user) body ord)))
             in (Inr (updateData existingOrder),
                 findByIdAndUpdate_order orderId updateData s)))"

section \<open>Notions used in the statements\<close>

text \<open>
  The remaining definitions are not part of the program: they name the sets, orders and
  quantities the properties below speak about.
\<close>

text \<open>The entries \<open>deductFromDailyInventory\<close> selects, and the ones it may take from.\<close>

definition candidate :: "instant \<Rightarrow> object_id \<Rightarrow> dailyInventoryEntry \<Rightarrow> bool" where
  "candidate today inventoryItemId e =
     (entry_date e = today \<and> entry_inventoryItem e = inventoryItemId \<and> remainingQuantity e > 0)"

definition usable :: "instant \<Rightarrow> dailyInventoryEntry \<Rightarrow> bool" where
  "usable now e = (\<not> date_passed (entry_expiryDate e) now)"

text \<open>The order in which the code walks, written out: the query returns an entry without
  expiry date before every entry that has one; among dated entries earlier expiry comes
  first; equal expiry is decided by creation time.\<close>

definition walks_before :: "dailyInventoryEntry \<Rightarrow> dailyInventoryEntry \<Rightarrow> bool" where
  "walks_before a b =
     (case (entry_expiryDate a, entry_expiryDate b) of
        (None, None) \<Rightarrow> createdAt a \<le> createdAt b
      | (None, Some y) \<Rightarrow> True
      | (Some x, None) \<Rightarrow> False
      | (Some x, Some y) \<Rightarrow> x < y \<or> (x = y \<and> createdAt a \<le> createdAt b))"

text \<open>What the usable entries walked before \<open>x\<close> hold together, and what a walk for
  \<open>need\<close> units takes from \<open>x\<close>: the smaller of its remaining quantity and of what is
  still needed when the walk reaches it, nothing when \<open>x\<close> has expired.\<close>

definition usable_before ::
  "instant \<Rightarrow> dailyInventoryEntry list \<Rightarrow> dailyInventoryEntry \<Rightarrow> int" where
  "usable_before now cs x =
     sum_list (map remainingQuantity (filter (usable now) (takeWhile (\<lambda>y. y \<noteq> x) cs)))"

definition taken ::
  "instant \<Rightarrow> int \<Rightarrow> dailyInventoryEntry list \<Rightarrow> dailyInventoryEntry \<Rightarrow> int" where
  "taken now need cs x =
     (if usable now x then min (remainingQuantity x) (max 0 (need - usable_before now cs x))
      else 0)"

text \<open>The entries of yesterday that \<open>startNewDay\<close> carries forward, and the fresh batches
  made of them, with consecutive new \<open>_id\<close> values from \<open>k\<close> on.\<close>

definition carryable :: "instant \<Rightarrow> instant \<Rightarrow> dailyInventoryEntry \<Rightarrow> bool" where
  "carryable yesterday now e =
     (entry_date e = yesterday \<and> remainingQuantity e > 0
        \<and> \<not> date_passed (entry_expiryDate e) now)"

definition carried_batches ::
  "object_id \<Rightarrow> instant \<Rightarrow> object_id \<Rightarrow> dailyInventoryEntry list
     \<Rightarrow> dailyInventoryEntry list" where
  "carried_batches k now userId es =
     map (\<lambda>(new_id, e). carried_entry new_id now (getTodayDate now) userId e) (enumerate k es)"

text \<open>The write-off of the expiry sweep.\<close>

definition write_off :: "object_id option \<Rightarrow> inventoryItem \<Rightarrow> inventoryItem" where
  "write_off who i =
     i\<lparr>currentStock := 0, item_quantity := 0, item_status := Expired, lastUpdatedBy := who\<rparr>"

text \<open>An ingredient the availability checker reports as missing (unknown, expired or
  short), and the soft low-stock condition of a stock item.\<close>

definition unavailable :: "instant \<Rightarrow> db \<Rightarrow> int \<Rightarrow> recipe_ingredient \<Rightarrow> bool" where
  "unavailable now s quantity ingredient =
     (case findById_item (ing_ingredient ingredient) s of
        None \<Rightarrow> True
      | Some i \<Rightarrow> date_passed (item_expiryDate i) now \<or> item_status i = Expired
                  \<or> currentStock i < ing_quantity ingredient * quantity)"

definition soft_low_stock :: "db \<Rightarrow> recipe_ingredient \<Rightarrow> bool" where
  "soft_low_stock s ingredient =
     (case findById_item (ing_ingredient ingredient) s of
        None \<Rightarrow> False
      | Some i \<Rightarrow> item_status i = Low_stock
                  \<or> (minThreshold i > 0 \<and> currentStock i \<le> minThreshold i))"

text \<open>A line of an order request whose dish fails the availability check.\<close>

definition line_unavailable :: "instant \<Rightarrow> db \<Rightarrow> order_item_request \<Rightarrow> bool" where
  "line_unavailable now s orderItem =
     (case ri_menuItem orderItem of
        None \<Rightarrow> False
      | Some menuItemId \<Rightarrow>
          (case findById_menu menuItemId s of
             None \<Rightarrow> False
           | Some menuItem \<Rightarrow>
               \<not> isAvailable (checkIngredientAvailability now s (ingredients menuItem)
                                (ri_quantity orderItem))))"

text \<open>The stock table: every stock item's \<open>_id\<close> with its \<open>currentStock\<close>; a table
  with \<open>d k\<close> added to the stock of every item \<open>k\<close>.\<close>

definition stocks :: "db \<Rightarrow> (object_id \<times> int) list" where
  "stocks s = map (\<lambda>i. (item_id i, currentStock i)) (inventoryItems s)"







section \<open>Example states\<close>

text \<open>
  A kitchen with one stock item and one dish, on the third day of the epoch: today starts at
  172800000, yesterday at 86400000 and has been ended.
\<close>

definition tomato :: inventoryItem where
  "tomato = \<lparr>item_id = 1, item_name = ''tomato'', item_unit = ''kg'', currentStock = 5,
              item_quantity = 5, minThreshold = 0, item_cost = Some 2, item_expiryDate = None,
              item_status = Active, lastUpdatedBy = None\<rparr>"

definition batch ::
  "object_id \<Rightarrow> instant \<Rightarrow> int \<Rightarrow> instant option \<Rightarrow> instant \<Rightarrow> dailyInventoryEntry" where
  "batch k day q expiry created =
     \<lparr>entry_id = k, entry_date = day, entry_inventoryItem = 1, entry_quantity = q,
      entry_cost = Some 2, entry_expiryDate = expiry, remainingQuantity = q, addedBy = 7,
      createdAt = created\<rparr>"

definition salad :: menuItem where
  "salad = \<lparr>menu_id = 20, menu_name = ''salad'',
             ingredients = [\<lparr>ing_ingredient = 1, ing_quantity = 2, ing_unit = ''kg''\<rparr>]\<rparr>"

definition kitchen ::
  "inventoryItem list \<Rightarrow> dailyInventoryEntry list \<Rightarrow> order list \<Rightarrow> db" where
  "kitchen its es os =
     \<lparr>inventoryItems = its, dailyEntries = es,
      dayStatuses = [\<lparr>day_date = 86400000, isEnded = True, endedAt = Some 86450000,
                      endedBy = Some 7\<rparr>],
      menuItems = [salad], orders = os, inventoryLogs = [], wasteLogs = [], sales = [],
      console = [], next_id = 100\<rparr>"

definition chef :: user where
  "chef = \<lparr>user_id = 7, user_restaurant = ''restaurant1''\<rparr>"

definition salad_order :: "string \<Rightarrow> order" where
  "salad_order status =
     \<lparr>order_id = 60, customerName = ''Ada'', customerPhone = None, customerEmail = None,
      orderType = ''dine-in'',
      order_items = [\<lparr>line_menuItem = 20, line_quantity = 1, unitPrice = 9, totalPrice = 9\<rparr>],
      subtotal = 9, tax = 0, discount = 0, totalAmount = 9, order_notes = [],
      order_status = status, createdBy = 7, updatedBy = None, restaurant = ''restaurant1'',
      estimatedTime = None, actualDeliveryTime = None\<rparr>"

definition salad_request :: "int \<Rightarrow> order_request" where
  "salad_request n =
     \<lparr>rq_customerName = ''Ada'', rq_customerPhone = None, rq_customerEmail = None,
      rq_orderType = [], rq_items = [\<lparr>ri_menuItem = Some 20, ri_quantity = n, ri_unitPrice = 9\<rparr>],
      rq_notes = []\<rparr>"

section \<open>Frame lemmas\<close>

lemma findByIdAndUpdate_item_simps [simp]:
  "inventoryItems (findByIdAndUpdate_item k f s) = map (\<lambda>i. if item_id i = k then f i else i) (inventoryItems s)"
  "dailyEntries (findByIdAndUpdate_item k f s) = dailyEntries s"
  "menuItems (findByIdAndUpdate_item k f s) = menuItems s"
  "orders (findByIdAndUpdate_item k f s) = orders s"
  "inventoryLogs (findByIdAndUpdate_item k f s) = inventoryLogs s"
  "wasteLogs (findByIdAndUpdate_item k f s) = wasteLogs s"
  "console (findByIdAndUpdate_item k f s) = console s"
  "next_id (findByIdAndUpdate_item k f s) = next_id s"
  "dayStatuses (findByIdAndUpdate_item k f s) = dayStatuses s"
  "sales (findByIdAndUpdate_item k f s) = sales s"
  by (simp_all add: findByIdAndUpdate_item_def)

lemma create_inventorylog_simps [simp]:
  "inventoryItems (create_inventorylog l s) = inventoryItems s"
  "dailyEntries (create_inventorylog l s) = dailyEntries s"
  "menuItems (create_inventorylog l s) = menuItems s"
  "orders (create_inventorylog l s) = orders s"
  "inventoryLogs (create_inventorylog l s) = inventoryLogs s @ [l]"
  "wasteLogs (create_inventorylog l s) = wasteLogs s"
  "console (create_inventorylog l s) = console s"
  "next_id (create_inventorylog l s) = next_id s"
  "dayStatuses (create_inventorylog l s) = dayStatuses s"
  "sales (create_inventorylog l s) = sales s"
  by (simp_all add: create_inventorylog_def)

lemma inc_currentStock_simps [simp]:
  "inventoryItems (inc_currentStock k d who s) =
     map (\<lambda>i. if item_id i = k then i\<lparr>currentStock := currentStock i + d, lastUpdatedBy := who\<rparr> else i)
       (inventoryItems s)"
  "dailyEntries (inc_currentStock k d who s) = dailyEntries s"
  "menuItems (inc_currentStock k d who s) = menuItems s"
  "orders (inc_currentStock k d who s) = orders s"
  "inventoryLogs (inc_currentStock k d who s) = inventoryLogs s"
  "console (inc_currentStock k d who s) = console s"
  "next_id (inc_currentStock k d who s) = next_id s"
  by (simp_all add: inc_currentStock_def)

lemma console_error_simps [simp]:
  "inventoryItems (console_error m s) = inventoryItems s"
  "dailyEntries (console_error m s) = dailyEntries s"
  "menuItems (console_error m s) = menuItems s"
  "orders (console_error m s) = orders s"
  "inventoryLogs (console_error m s) = inventoryLogs s"
  "wasteLogs (console_error m s) = wasteLogs s"
  "console (console_error m s) = console s @ [m]"
  "next_id (console_error m s) = next_id s"
  "dayStatuses (console_error m s) = dayStatuses s"
  "sales (console_error m s) = sales s"
  by (simp_all add: console_error_def)


section \<open>The deduction walk in closed form\<close>

lemma usable_before_nonneg:
  "\<forall>x\<in>set cs. 0 \<le> remainingQuantity x \<Longrightarrow> 0 \<le> usable_before now cs y"
  unfolding usable_before_def
  by (rule sum_list_nonneg) (auto dest: set_takeWhileD)

lemma usable_before_Cons:
  "x \<noteq> e \<Longrightarrow> usable_before now (e # es) x =
     (if usable now e then remainingQuantity e else 0) + usable_before now es x"
  by (simp add: usable_before_def)

lemma usable_before_head: "usable_before now (e # es) e = 0"
  by (simp add: usable_before_def)

lemma taken_stopped:
  assumes "need \<le> 0" "\<forall>x\<in>set cs. 0 \<le> remainingQuantity x" "x \<in> set cs"
  shows "taken now need cs x = 0"
proof -
  have "0 \<le> usable_before now cs x" using assms(2) by (rule usable_before_nonneg)
  then have "max 0 (need - usable_before now cs x) = 0" using assms(1) by simp
  then show ?thesis using assms(2,3) by (simp add: taken_def)
qed

lemma taken_tail:
  assumes "0 < need" "\<forall>x\<in>set (e # es). 0 \<le> remainingQuantity x" "x \<in> set es" "x \<noteq> e"
  shows "taken now need (e # es) x =
           taken now (if usable now e then need - min (remainingQuantity e) need else need) es x"
proof (cases "usable now e")
  case False
  then show ?thesis using assms(4) by (simp add: taken_def usable_before_Cons)
next
  case True
  have nn: "0 \<le> usable_before now es x" using assms(2) by (intro usable_before_nonneg) simp
  have "max 0 (need - (remainingQuantity e + usable_before now es x))
        = max 0 (need - min (remainingQuantity e) need - usable_before now es x)"
    using nn assms(1) by (simp add: min_def max_def)
  then show ?thesis using True assms(4) by (simp add: taken_def usable_before_Cons)
qed

lemma save_entry_ids: "map entry_id (save_entry e coll) = map entry_id coll"
  by (induction coll) (simp_all add: save_entry_def)

lemma save_entry_distinct:
  assumes "distinct (map entry_id coll)" "e \<in> set coll" "entry_id e' = entry_id e"
  shows "save_entry e' coll = map (\<lambda>x. if x = e then e' else x) coll"
  unfolding save_entry_def
proof (rule map_cong [OF refl])
  fix x assume "x \<in> set coll"
  then have "entry_id x = entry_id e \<longleftrightarrow> x = e"
    using assms(1,2) by (auto simp: distinct_map inj_on_def)
  then show "(if entry_id x = entry_id e' then e' else x) = (if x = e then e' else x)"
    using assms(3) by simp
qed

lemma deduct_loop_closed:
  assumes "distinct (map entry_id coll)" "distinct cs" "set cs \<subseteq> set coll"
    and "\<forall>x\<in>set cs. 0 \<le> remainingQuantity x"
  shows "deduct_loop now cs need coll =
           (need - sum_list (map (taken now need cs) cs),
            map (\<lambda>x. if x \<in> set cs
                      then x\<lparr>remainingQuantity := remainingQuantity x - taken now need cs x\<rparr>
                      else x) coll)"
  using assms
proof (induction cs arbitrary: need coll)
  case Nil
  then show ?case by simp
next
  case (Cons e es)
  have e_in: "e \<in> set coll" and e_notin: "e \<notin> set es" and es_sub: "set es \<subseteq> set coll"
    and dist_es: "distinct es" and nn_es: "\<forall>x\<in>set es. 0 \<le> remainingQuantity x"
    and nn: "\<forall>x\<in>set (e # es). 0 \<le> remainingQuantity x"
    using Cons.prems by auto
  show ?case
  proof (cases "need \<le> 0")
    case True
    have z: "taken now need (e # es) x = 0" if "x \<in> set (e # es)" for x
      using taken_stopped [OF True nn that] .
    have "sum_list (map (taken now need (e # es)) (e # es)) = 0"
    proof -
      have "map (taken now need (e # es)) (e # es) = map (\<lambda>x. 0) (e # es)"
        using z by (intro map_cong) auto
      then show ?thesis by (simp only: sum_list_0)
    qed
    moreover have "map (\<lambda>x. if x \<in> set (e # es)
                      then x\<lparr>remainingQuantity := remainingQuantity x - taken now need (e # es) x\<rparr>
                      else x) coll = coll"
      using z by (intro map_idI) auto
    ultimately show ?thesis using True by simp
  next
    case pos: False
    then have need_pos: "0 < need" by simp
    define need' where "need' = (if usable now e then need - min (remainingQuantity e) need else need)"
    have tail: "taken now need (e # es) x = taken now need' es x" if "x \<in> set es" for x
    proof -
      have "x \<noteq> e" using that e_notin by auto
      from taken_tail [OF need_pos nn that this, where now=now] show ?thesis
        by (simp add: need'_def)
    qed
    have sum_tail: "sum_list (map (taken now need (e # es)) es) = sum_list (map (taken now need' es) es)"
      using tail by (intro arg_cong [where f=sum_list] map_cong) auto
    show ?thesis
    proof (cases "usable now e")
      case False
      then have head: "taken now need (e # es) e = 0" by (simp add: taken_def)
      have n': "need' = need" using False by (simp add: need'_def)
      have run: "deduct_loop now (e # es) need coll = deduct_loop now es need coll"
        using pos False by (simp add: usable_def)
      have "map (\<lambda>x. if x \<in> set es
                      then x\<lparr>remainingQuantity := remainingQuantity x - taken now need es x\<rparr>
                      else x) coll =
            map (\<lambda>x. if x \<in> set (e # es)
                      then x\<lparr>remainingQuantity := remainingQuantity x - taken now need (e # es) x\<rparr>
                      else x) coll"
        using tail head n' e_notin by (intro map_cong) auto
      then show ?thesis
        unfolding run Cons.IH [OF Cons.prems(1) dist_es es_sub nn_es]
        using sum_tail head n' by simp
    next
      case True
      define d where "d = min (remainingQuantity e) need"
      define e' where "e' = e\<lparr>remainingQuantity := remainingQuantity e - d\<rparr>"
      have n': "need' = need - d" using True by (simp add: need'_def d_def)
      have head: "taken now need (e # es) e = d"
        using True need_pos by (simp add: taken_def usable_before_head d_def)
      have run: "deduct_loop now (e # es) need coll = deduct_loop now es (need - d) (save_entry e' coll)"
        using pos True by (simp add: usable_def Let_def d_def e'_def)
      have saved: "save_entry e' coll = map (\<lambda>x. if x = e then e' else x) coll"
        using save_entry_distinct [OF Cons.prems(1) e_in, of e'] by (simp add: e'_def)
      have dist': "distinct (map entry_id (save_entry e' coll))"
        using Cons.prems(1) by (simp add: save_entry_ids)
      have sub': "set es \<subseteq> set (save_entry e' coll)"
        unfolding saved using es_sub e_notin by auto
      have e'_notin: "e' \<notin> set es"
      proof
        assume "e' \<in> set es"
        then have "e' \<in> set coll" "e' \<noteq> e" using es_sub e_notin by auto
        moreover have "entry_id e' = entry_id e" by (simp add: e'_def)
        ultimately show False
          using Cons.prems(1) e_in by (auto simp: distinct_map inj_on_def)
      qed
      have "map (\<lambda>x. if x \<in> set es
                      then x\<lparr>remainingQuantity := remainingQuantity x - taken now (need - d) es x\<rparr>
                      else x) (save_entry e' coll) =
            map (\<lambda>x. if x \<in> set (e # es)
                      then x\<lparr>remainingQuantity := remainingQuantity x - taken now need (e # es) x\<rparr>
                      else x) coll"
        unfolding saved map_map
      proof (rule map_cong [OF refl])
        fix x assume "x \<in> set coll"
        show "((\<lambda>x. if x \<in> set es
                      then x\<lparr>remainingQuantity := remainingQuantity x - taken now (need - d) es x\<rparr>
                      else x) \<circ> (\<lambda>x. if x = e then e' else x)) x =
              (if x \<in> set (e # es)
                      then x\<lparr>remainingQuantity := remainingQuantity x - taken now need (e # es) x\<rparr>
                      else x)"
        proof (cases "x = e")
          case True
          then show ?thesis using e'_notin head by (simp add: e'_def)
        next
          case False
          then show ?thesis using tail [of x] n' by simp
        qed
      qed
      then show ?thesis
        unfolding run Cons.IH [OF dist' dist_es sub' nn_es]
        using sum_tail head n' by simp
    qed
  qed
qed


lemma deduct_query_candidates:
  "mset (deduct_query today k coll) = mset (filter (candidate today k) coll)"
  by (simp add: deduct_query_def sort_entries_def candidate_def)

lemma walks_before_key:
  "walks_before a b \<longleftrightarrow> (entry_expiryDate a, createdAt a) \<le> (entry_expiryDate b, createdAt b)"
  by (auto simp: walks_before_def split: option.splits)

lemma deduct_query_sorted: "sorted_wrt walks_before (deduct_query today k coll)"
proof -
  have "sorted (map (\<lambda>e. (entry_expiryDate e, createdAt e)) (deduct_query today k coll))"
    by (simp add: deduct_query_def sort_entries_def)
  then show ?thesis
    by (simp add: sorted_map walks_before_key [abs_def])
qed

lemma deduct_query_facts:
  assumes "distinct (map entry_id coll)"
  shows "distinct (deduct_query today k coll)" "set (deduct_query today k coll) \<subseteq> set coll"
    "\<forall>x\<in>set (deduct_query today k coll). 0 \<le> remainingQuantity x"
    "set (deduct_query today k coll) = {e \<in> set coll. candidate today k e}"
proof -
  have "distinct coll" using assms by (simp add: distinct_map)
  then show "distinct (deduct_query today k coll)"
    by (simp add: deduct_query_def sort_entries_def)
  show "set (deduct_query today k coll) = {e \<in> set coll. candidate today k e}"
    by (auto simp: deduct_query_def sort_entries_def candidate_def)
  then show "set (deduct_query today k coll) \<subseteq> set coll"
    "\<forall>x\<in>set (deduct_query today k coll). 0 \<le> remainingQuantity x"
    by (auto simp: candidate_def)
qed

lemma deductFromDailyInventory_entries:
  assumes "distinct (map entry_id (dailyEntries s))"
  shows "dailyEntries (snd (deductFromDailyInventory now k q uid s)) =
           map (\<lambda>x. if x \<in> set (deduct_query (getTodayDate now) k (dailyEntries s))
                     then x\<lparr>remainingQuantity := remainingQuantity x
                              - taken now q (deduct_query (getTodayDate now) k (dailyEntries s)) x\<rparr>
                     else x) (dailyEntries s)"
proof -
  note facts = deduct_query_facts [OF assms, of "getTodayDate now" k]
  show ?thesis
    using deduct_loop_closed [OF assms facts(1-3), of now q]
    by (simp add: deductFromDailyInventory_def Let_def inc_currentStock_def
        findByIdAndUpdate_item_def)
qed

lemma usable_prefix_le:
  assumes "\<forall>x\<in>set cs. 0 \<le> remainingQuantity x" "x \<in> set cs" "usable now x"
  shows "usable_before now cs x + remainingQuantity x
           \<le> sum_list (map remainingQuantity (filter (usable now) cs))"
  using assms
proof (induction cs)
  case Nil
  then show ?case by simp
next
  case (Cons e es)
  show ?case
  proof (cases "x = e")
    case True
    have "0 \<le> sum_list (map remainingQuantity (filter (usable now) es))"
      using Cons.prems(1) by (intro sum_list_nonneg) auto
    then show ?thesis using True Cons.prems(3) by (simp add: usable_before_head)
  next
    case False
    then have "x \<in> set es" using Cons.prems(2) by simp
    from Cons.IH [OF _ this Cons.prems(3)] Cons.prems(1) False
    show ?thesis
      using Cons.prems(1) by (simp add: usable_before_Cons)
  qed
qed

lemma taken_all:
  assumes "\<forall>x\<in>set cs. 0 \<le> remainingQuantity x" "x \<in> set cs"
    and "sum_list (map remainingQuantity (filter (usable now) cs)) < need"
  shows "taken now need cs x = (if usable now x then remainingQuantity x else 0)"
proof (cases "usable now x")
  case True
  from usable_prefix_le [OF assms(1,2) True] assms(3)
  have "remainingQuantity x \<le> need - usable_before now cs x" by simp
  then show ?thesis using True by (simp add: taken_def)
next
  case False
  then show ?thesis by (simp add: taken_def)
qed


section \<open>The expiry sweep in closed form\<close>

lemma process_loop_items:
  "\<forall>i\<in>set its. item_expiryDate i \<noteq> None \<Longrightarrow>
   inventoryItems (snd (process_loop now who its p t s)) =
     map (\<lambda>i. if item_id i \<in> item_id ` set its then write_off who i else i) (inventoryItems s)"
proof (induction its arbitrary: p t s)
  case Nil
  then show ?case by simp
next
  case (Cons x xs)
  then obtain d where d: "item_expiryDate x = Some d" by auto
  have "\<forall>i\<in>set xs. item_expiryDate i \<noteq> None" using Cons.prems by simp
  note IH = Cons.IH [OF this]
  show ?case
    by (simp add: d Let_def IH write_off_def)
qed

lemma process_loop_result:
  "\<forall>i\<in>set its. item_expiryDate i \<noteq> None \<Longrightarrow>
   map (\<lambda>r. (processed_itemId r, processed_quantity r, processed_wasteCost r))
       (fst (fst (process_loop now who its p t s))) =
     map (\<lambda>r. (processed_itemId r, processed_quantity r, processed_wasteCost r)) p
       @ map (\<lambda>i. (item_id i, currentStock i, waste_cost i)) its
   \<and> snd (fst (process_loop now who its p t s)) = t + sum_list (map waste_cost its)"
proof (induction its arbitrary: p t s)
  case Nil
  then show ?case by simp
next
  case (Cons x xs)
  then obtain d where d: "item_expiryDate x = Some d" by auto
  have "\<forall>i\<in>set xs. item_expiryDate i \<noteq> None" using Cons.prems by simp
  note IH = Cons.IH [OF this]
  show ?case
    by (simp add: d Let_def IH)
qed

lemma process_loop_waste:
  "\<forall>i\<in>set its. item_expiryDate i \<noteq> None \<Longrightarrow>
   map (\<lambda>(k, w). (waste_ingredient w, waste_category w, waste_quantity w))
       (wasteLogs (snd (process_loop now who its p t s))) =
     map (\<lambda>(k, w). (waste_ingredient w, waste_category w, waste_quantity w)) (wasteLogs s)
       @ map (\<lambda>i. (item_id i, ''expired'', currentStock i)) its"
proof (induction its arbitrary: p t s)
  case Nil
  then show ?case by simp
next
  case (Cons x xs)
  then obtain d where d: "item_expiryDate x = Some d" by auto
  have "\<forall>i\<in>set xs. item_expiryDate i \<noteq> None" using Cons.prems by simp
  note IH = Cons.IH [OF this]
  show ?case
    by (simp add: d Let_def IH)
qed

lemma selected_have_expiry:
  "\<forall>i\<in>set (filter (expired_with_stock now) its). item_expiryDate i \<noteq> None"
proof
  fix i assume "i \<in> set (filter (expired_with_stock now) its)"
  then have "date_passed (item_expiryDate i) now" by (simp add: expired_with_stock_def)
  then show "item_expiryDate i \<noteq> None" by (cases "item_expiryDate i") auto
qed

lemma selected_ids:
  assumes "distinct (map item_id its)" "i \<in> set its"
  shows "item_id i \<in> item_id ` set (filter P its) \<longleftrightarrow> P i"
  using assms by (auto simp: distinct_map inj_on_def)

lemma process_preserves:
  assumes "stock_invariant s"
  shows "stock_invariant (snd (processExpiredItems now who s))"
proof -
  let ?sel = "filter (expired_with_stock now) (inventoryItems s)"
  obtain p t s' where run: "process_loop now who ?sel [] 0 s = ((p, t), s')"
    by (metis surj_pair)
  have items: "inventoryItems s' =
      map (\<lambda>i. if item_id i \<in> item_id ` set ?sel then write_off who i else i) (inventoryItems s)"
    using process_loop_items [OF selected_have_expiry, where now1=now and its1="inventoryItems s" and now=now and who=who and p="[]" and t=0 and s=s] run
    by simp
  show ?thesis using assms
    by (auto simp: processExpiredItems_def run stock_invariant_def items list_all_iff write_off_def)
qed


section \<open>The carry-forward in closed form\<close>

lemma carry_loop_ok:
  "\<forall>e\<in>set es. \<not> date_passed (entry_expiryDate e) now \<longrightarrow> findById_item (entry_inventoryItem e) s \<noteq> None \<Longrightarrow>
   \<exists>c'. carry_loop now today uid es c s =
     (Inr c', s\<lparr>dailyEntries := dailyEntries s @
                  map (\<lambda>(new_id, e). carried_entry new_id now today uid e)
                    (enumerate (next_id s) (filter (\<lambda>e. \<not> date_passed (entry_expiryDate e) now) es)),
               next_id := next_id s + length (filter (\<lambda>e. \<not> date_passed (entry_expiryDate e) now) es)\<rparr>)
     \<and> length c' = length c + length (filter (\<lambda>e. \<not> date_passed (entry_expiryDate e) now) es)"
proof (induction es arbitrary: c s)
  case Nil
  then show ?case by simp
next
  case (Cons e es)
  show ?case
  proof (cases "date_passed (entry_expiryDate e) now")
    case True
    then show ?thesis using Cons.IH [of s c] Cons.prems by simp
  next
    case False
    then obtain it where it: "findById_item (entry_inventoryItem e) s = Some it"
      using Cons.prems by auto
    let ?s1 = "s\<lparr>dailyEntries := dailyEntries s @ [carried_entry (next_id s) now today uid e],
                  next_id := Suc (next_id s)\<rparr>"
    have "\<forall>e\<in>set es. \<not> date_passed (entry_expiryDate e) now \<longrightarrow> findById_item (entry_inventoryItem e) ?s1 \<noteq> None"
      using Cons.prems by (simp add: findById_item_def)
    from Cons.IH [OF this, of "c @ [\<lparr>carried_itemName = item_name it,
                            carried_quantity = remainingQuantity e,
                            carried_unit = item_unit it\<rparr>]"]
    show ?thesis
      using False it by simp
  qed
qed

lemma carry_loop_fail:
  "\<exists>e\<in>set es. \<not> date_passed (entry_expiryDate e) now \<and> findById_item (entry_inventoryItem e) s = None \<Longrightarrow>
   fst (carry_loop now today uid es c s) = Inl Type_error"
proof (induction es arbitrary: c s)
  case Nil
  then show ?case by simp
next
  case (Cons e es)
  show ?case
  proof (cases "date_passed (entry_expiryDate e) now")
    case True
    then show ?thesis using Cons.IH [of s c] Cons.prems by auto
  next
    case False
    show ?thesis
    proof (cases "findById_item (entry_inventoryItem e) s")
      case None
      then show ?thesis using False by simp
    next
      case (Some it)
      let ?s1 = "s\<lparr>dailyEntries := dailyEntries s @ [carried_entry (next_id s) now today uid e],
                  next_id := Suc (next_id s)\<rparr>"
      have "\<exists>e\<in>set es. \<not> date_passed (entry_expiryDate e) now \<and> findById_item (entry_inventoryItem e) ?s1 = None"
        using Cons.prems False Some by (auto simp: findById_item_def)
      from Cons.IH [OF this, of "c @ [\<lparr>carried_itemName = item_name it,
                            carried_quantity = remainingQuantity e,
                            carried_unit = item_unit it\<rparr>]"]
      show ?thesis using False Some by simp
    qed
  qed
qed

lemma carry_loop_items: "inventoryItems (snd (carry_loop now today uid es c s)) = inventoryItems s"
proof (induction es arbitrary: c s)
  case Nil
  then show ?case by simp
next
  case (Cons e es)
  show ?case
    by (cases "findById_item (entry_inventoryItem e) s") (simp_all add: Cons.IH)
qed

lemma filter_carryable:
  "filter (\<lambda>e. \<not> date_passed (entry_expiryDate e) now)
     (filter (\<lambda>e. entry_date e = y \<and> 0 < remainingQuantity e) es) = filter (carryable y now) es"
  by (induction es) (auto simp: carryable_def)

lemma startNewDay_success:
  assumes "\<not> day_isEnded (getTodayDate now) s" "day_isEnded (getTodayDate now - day_ms) s"
    and "\<forall>e\<in>set (dailyEntries s). carryable (getTodayDate now - day_ms) now e
            \<longrightarrow> findById_item (entry_inventoryItem e) s \<noteq> None"
  shows "\<exists>r. startNewDay now u s =
         (Inr r, s\<lparr>dailyEntries := dailyEntries s @
                      carried_batches (next_id s) now (user_id u)
                        (filter (carryable (getTodayDate now - day_ms) now) (dailyEntries s)),
                    next_id := next_id s
                      + length (filter (carryable (getTodayDate now - day_ms) now) (dailyEntries s))\<rparr>)
         \<and> carriedForwardCount r
             = length (filter (carryable (getTodayDate now - day_ms) now) (dailyEntries s))"
proof -
  let ?y = "getTodayDate now - day_ms"
  let ?ys = "filter (\<lambda>e. entry_date e = ?y \<and> remainingQuantity e > 0) (dailyEntries s)"
  have "\<forall>e\<in>set ?ys. \<not> date_passed (entry_expiryDate e) now
               \<longrightarrow> findById_item (entry_inventoryItem e) s \<noteq> None"
    using assms(3) by (auto simp: carryable_def)
  from carry_loop_ok [OF this, of "getTodayDate now" "user_id u" "[]"]
  obtain c' where c': "carry_loop now (getTodayDate now) (user_id u) ?ys [] s =
     (Inr c', s\<lparr>dailyEntries := dailyEntries s @
                  map (\<lambda>(new_id, e). carried_entry new_id now (getTodayDate now) (user_id u) e)
                    (enumerate (next_id s) (filter (carryable ?y now) (dailyEntries s))),
               next_id := next_id s + length (filter (carryable ?y now) (dailyEntries s))\<rparr>)"
     and len: "length c' = length (filter (carryable ?y now) (dailyEntries s))"
    unfolding filter_carryable by auto
  show ?thesis
    using assms(1,2) by (simp add: startNewDay_def Let_def c' len carried_batches_def)
qed

lemma startNewDay_Inr:
  assumes "startNewDay now u s = (Inr r, s')"
  shows "\<not> day_isEnded (getTodayDate now) s" "day_isEnded (getTodayDate now - day_ms) s"
    "\<forall>e\<in>set (dailyEntries s). carryable (getTodayDate now - day_ms) now e
            \<longrightarrow> findById_item (entry_inventoryItem e) s \<noteq> None"
proof -
  let ?y = "getTodayDate now - day_ms"
  let ?ys = "filter (\<lambda>e. entry_date e = ?y \<and> remainingQuantity e > 0) (dailyEntries s)"
  show 1: "\<not> day_isEnded (getTodayDate now) s" and 2: "day_isEnded (getTodayDate now - day_ms) s"
    using assms by (auto simp: startNewDay_def Let_def split: if_splits)
  show "\<forall>e\<in>set (dailyEntries s). carryable ?y now e
            \<longrightarrow> findById_item (entry_inventoryItem e) s \<noteq> None"
  proof (rule ccontr)
    assume "\<not> ?thesis"
    then have "\<exists>e\<in>set ?ys. \<not> date_passed (entry_expiryDate e) now
                 \<and> findById_item (entry_inventoryItem e) s = None"
      by (auto simp: carryable_def)
    from carry_loop_fail [OF this, of "getTodayDate now" "user_id u" "[]"]
    have "fst (carry_loop now (getTodayDate now) (user_id u) ?ys [] s) = Inl Type_error" .
    then show False using assms 1 2
      by (auto simp: startNewDay_def Let_def split: prod.splits sum.splits)
  qed
qed

lemma date_passed_mono: "date_passed d now \<Longrightarrow> now \<le> now' \<Longrightarrow> date_passed d now'"
  by (cases d) auto

lemma carried_batches_today:
  "b \<in> set (carried_batches k now uid es) \<Longrightarrow> entry_date b = getTodayDate now"
  by (auto simp: carried_batches_def carried_entry_def in_set_enumerate_eq)

lemma carried_batches_fields:
  "map (\<lambda>b. (entry_date b, entry_inventoryItem b, entry_quantity b, remainingQuantity b,
              entry_expiryDate b, entry_cost b)) (carried_batches k now uid es) =
   map (\<lambda>e. (getTodayDate now, entry_inventoryItem e, remainingQuantity e, remainingQuantity e,
              entry_expiryDate e, entry_cost e)) es"
  unfolding carried_batches_def
  by (induction es arbitrary: k) (simp_all add: carried_entry_def)


section \<open>Availability and order validation\<close>

lemma check_loop_missing:
  "length (fst (check_loop now s q ings m l oos)) = length m + length (filter (unavailable now s q) ings)"
  by (induction ings arbitrary: m l oos) (auto simp: unavailable_def Let_def split: option.splits)

lemma check_loop_out:
  "snd (snd (check_loop now s q ings m l oos)) =
     (oos \<or> (\<exists>ing\<in>set ings.
        case findById_item (ing_ingredient ing) s of
          None \<Rightarrow> True
        | Some i \<Rightarrow> date_passed (item_expiryDate i) now \<or> item_status i = Expired
                    \<or> (currentStock i < ing_quantity ing * q \<and> currentStock i = 0)))"
  by (induction ings arbitrary: m l oos) (auto simp: Let_def split: option.splits)

lemma check_loop_low:
  "\<forall>ing\<in>set ings. \<not> unavailable now s q ing \<Longrightarrow>
   fst (snd (check_loop now s q ings m l oos)) = (l \<or> (\<exists>ing\<in>set ings. soft_low_stock s ing))"
  by (induction ings arbitrary: m l oos) (auto simp: unavailable_def soft_low_stock_def Let_def split: option.splits if_splits)

lemma validate_items_Inr:
  "validate_items now s items v sub = Inr r \<Longrightarrow> \<forall>l\<in>set items. \<not> line_unavailable now s l"
proof (induction items arbitrary: v sub)
  case Nil
  then show ?case by simp
next
  case (Cons l ls)
  from Cons.prems show ?case
    by (auto simp: line_unavailable_def Let_def split: option.splits if_splits dest: Cons.IH)
qed

lemma findById_menu_cong: "menuItems s' = menuItems s \<Longrightarrow> findById_menu k s' = findById_menu k s"
  by (simp add: findById_menu_def)

lemma restore_ingredients_frame:
  "orders (restore_ingredients now uid oid q ings s) = orders s
   \<and> menuItems (restore_ingredients now uid oid q ings s) = menuItems s"
  by (induction ings arbitrary: s) (auto simp: Let_def split: option.splits)

lemma restore_order_items_frame:
  "orders (restore_order_items now uid oid ls s) = orders s
   \<and> menuItems (restore_order_items now uid oid ls s) = menuItems s"
proof (induction ls arbitrary: s)
  case Nil
  then show ?case by simp
next
  case (Cons l ls)
  show ?case
    by (cases "findById_menu (line_menuItem l) s") (simp_all add: Cons.IH restore_ingredients_frame)
qed

lemma find_map_update:
  "find (\<lambda>x. key x = k) xs = Some x \<Longrightarrow> (\<And>y. key (f y) = key y) \<Longrightarrow>
   find (\<lambda>x. key x = k) (map (\<lambda>y. if key y = k then f y else y) xs) = Some (f x)"
  by (induction xs) (auto split: if_splits)


section \<open>Order creation and cancellation on the stock table\<close>





lemma stocks_cong: "inventoryItems s' = inventoryItems s \<Longrightarrow> stocks s' = stocks s"
  by (simp add: stocks_def)






















section \<open>Claims\<close>

text \<open>
  Claim C1, a defect of the code.  The walk of \<open>deductFromDailyInventory\<close> is to take the
  batches by expiry date ascending with the batches without expiry date last, as the
  comment of the query says ("Use earliest expiry first, then earliest added").  The query
  leaves the place of \<open>null\<close> to the default of the sort, which puts it first: with a
  batch of 10 that expires tomorrow and a later batch of 5 without expiry date, the walk
  starts at the batch without expiry date, and a deduction of 1 leaves 10 and 4 where the
  claim has 9 and 5.
\<close>

theorem deduct_null_expiry_first:
  "map entry_id (deduct_query (getTodayDate 172801000) 1
       [batch 50 172800000 10 (Some 259200000) 172800100,
        batch 51 172800000 5 None 172800200]) = [51, 50]
   \<and> map remainingQuantity (dailyEntries (snd (deductFromDailyInventory 172801000 1 1 7
        (kitchen [tomato]
           [batch 50 172800000 10 (Some 259200000) 172800100,
            batch 51 172800000 5 None 172800200] [])))) = [10, 4]"
  by (simp add: deductFromDailyInventory_def deduct_query_def sort_entries_def getTodayDate_def
      day_ms_def kitchen_def batch_def save_entry_def inc_currentStock_def
      findByIdAndUpdate_item_def)

text \<open>
  Claim C2, amended.  An edit request (\<open>updateOrder\<close>) on an order whose status is
  \<open>delivered\<close> or \<open>cancelled\<close> is rejected and changes nothing.  A status request
  (\<open>updateOrderStatus\<close>) is not: for every existing order, whatever its status, and every
  valid target status it succeeds and the order has the target status afterwards.
\<close>

theorem status_transitions:
  "(findById_order orderId s = Some ord \<and> status \<in> set validStatuses \<longrightarrow>
      (\<exists>ord' s'. updateOrderStatus now req_user orderId status est notes s = (Inr ord', s')
         \<and> order_status ord' = status
         \<and> findById_order orderId s' = Some ord')) \<and>
   (find (\<lambda>x. order_id x = orderId \<and> restaurant x = user_restaurant req_user) (orders s) = Some ord
      \<and> (order_status ord = ''delivered'' \<or> order_status ord = ''cancelled'') \<longrightarrow>
      updateOrder now req_user orderId body s = (Inl Cannot_edit_order, s))"
proof (intro conjI impI)
  assume a: "findById_order orderId s = Some ord \<and> status \<in> set validStatuses"
  then have ne: "status \<noteq> []" by (auto simp: validStatuses_def)
  define s1 where "s1 = (if status = ''cancelled'' \<and> order_status ord \<noteq> ''cancelled''
                        then restore_order_items now (user_id req_user) orderId (order_items ord) s
                        else s)"
  define upd :: "order \<Rightarrow> order" where "upd = (\<lambda>x. x\<lparr>order_status := status,
                                updatedBy := Some (user_id req_user),
                                estimatedTime := (case est of None \<Rightarrow> estimatedTime x
                                                  | Some t \<Rightarrow> Some t),
                                order_notes := (if notes = [] then order_notes x else notes),
                                actualDeliveryTime :=
                                  (if status = ''delivered'' then Some now
                                   else actualDeliveryTime x)\<rparr>)"
  have run: "updateOrderStatus now req_user orderId status est notes s =
               (Inr (upd ord), findByIdAndUpdate_order orderId upd s1)"
    using a ne by (simp add: updateOrderStatus_def Let_def s1_def upd_def)
  have "orders s1 = orders s"
    by (simp add: s1_def restore_order_items_frame)
  then have "find (\<lambda>x. order_id x = orderId) (orders s1) = Some ord"
    using a by (simp add: findById_order_def)
  then have "findById_order orderId (findByIdAndUpdate_order orderId upd s1) = Some (upd ord)"
    unfolding findById_order_def findByIdAndUpdate_order_def
    by (simp add: find_map_update [where key=order_id] upd_def)
  moreover have "order_status (upd ord) = status" by (simp add: upd_def)
  ultimately show "\<exists>ord' s'. updateOrderStatus now req_user orderId status est notes s = (Inr ord', s')
         \<and> order_status ord' = status \<and> findById_order orderId s' = Some ord'"
    using run by blast
next
  assume "find (\<lambda>x. order_id x = orderId \<and> restaurant x = user_restaurant req_user) (orders s) = Some ord
      \<and> (order_status ord = ''delivered'' \<or> order_status ord = ''cancelled'')"
  then show "updateOrder now req_user orderId body s = (Inl Cannot_edit_order, s)"
    by (auto simp: updateOrder_def)
qed

theorem status_transitions_witness:
  "(\<exists>ord' s'. updateOrderStatus 172801000 chef 60 ''confirmed'' None []
        (kitchen [tomato] [] [salad_order ''pending'']) = (Inr ord', s')
      \<and> order_status ord' = ''confirmed'' \<and> findById_order 60 s' = Some ord')
   \<and> updateOrder 172801000 chef 60
        \<lparr>up_customerName = ''Bob'', up_customerPhone = None, up_customerEmail = None,
         up_orderType = [], up_items = [], up_notes = None, up_tax = None, up_discount = None\<rparr>
        (kitchen [tomato] [] [salad_order ''delivered''])
      = (Inl Cannot_edit_order, kitchen [tomato] [] [salad_order ''delivered''])"
proof -
  have a: "findById_order 60 (kitchen [tomato] [] [salad_order ''pending''])
             = Some (salad_order ''pending'') \<and> ''confirmed'' \<in> set validStatuses"
    by (simp add: findById_order_def kitchen_def salad_order_def validStatuses_def)
  have b: "find (\<lambda>x. order_id x = 60 \<and> restaurant x = user_restaurant chef)
             (orders (kitchen [tomato] [] [salad_order ''delivered'']))
             = Some (salad_order ''delivered'')
           \<and> (order_status (salad_order ''delivered'') = ''delivered''
                \<or> order_status (salad_order ''delivered'') = ''cancelled'')"
    by (simp add: kitchen_def salad_order_def chef_def)
  from a b show ?thesis
    using status_transitions
      [of 60 "kitchen [tomato] [] [salad_order ''pending'']" "salad_order ''pending''"
          "''confirmed''" 172801000 chef None "[]"]
      status_transitions
      [of 60 "kitchen [tomato] [] [salad_order ''delivered'']" "salad_order ''delivered''"
          "''confirmed''" 172801000 chef None "[]"]
    by blast
qed

text \<open>The claim as stated fails: a delivered order is moved back to \<open>pending\<close>.\<close>

theorem status_transitions_counterexample:
  "order_status (salad_order ''delivered'') = ''delivered''
   \<and> fst (updateOrderStatus 172801000 chef 60 ''pending'' None []
            (kitchen [tomato] [] [salad_order ''delivered'']))
       = Inr ((salad_order ''delivered'')\<lparr>order_status := ''pending'', updatedBy := Some 7\<rparr>)
   \<and> map order_status (orders (snd (updateOrderStatus 172801000 chef 60 ''pending'' None []
            (kitchen [tomato] [] [salad_order ''delivered'']))))
       = [''pending'']"
  by (simp add: updateOrderStatus_def validStatuses_def findById_order_def
      findByIdAndUpdate_order_def kitchen_def salad_order_def chef_def)

text \<open>
  Claim C3, amended.  Status marking (\<open>checkExpiredItems\<close>) sets \<open>status = expired\<close>
  without touching \<open>currentStock\<close>, so the invariant "\<open>status = expired\<close> implies
  \<open>currentStock = 0\<close>" does not hold in every reachable state.  The expiry sweep
  \<open>processExpiredItems\<close> preserves it, and, stocks being non-negative, re-establishes it
  when it runs after the status marking.
\<close>

theorem sweep_after_marking:
  assumes "stock_invariant s" "\<forall>i\<in>set (inventoryItems s). 0 \<le> currentStock i" "now \<le> now'"
  shows "stock_invariant (snd (processExpiredItems now' who s))
       \<and> stock_invariant (snd (processExpiredItems now' who (checkExpiredItems now s)))"
proof
  show "stock_invariant (snd (processExpiredItems now' who s))"
    using assms(1) by (rule process_preserves)
next
  let ?c = "checkExpiredItems now s"
  let ?sel = "filter (expired_with_stock now') (inventoryItems ?c)"
  obtain p t s' where run: "process_loop now' who ?sel [] 0 ?c = ((p, t), s')"
    by (metis surj_pair)
  have items: "inventoryItems s' =
      map (\<lambda>i. if item_id i \<in> item_id ` set ?sel then write_off who i else i) (inventoryItems ?c)"
    using process_loop_items [OF selected_have_expiry, where now1=now' and its1="inventoryItems ?c" and now=now' and who=who and p="[]" and t=0 and s="?c"] run
    by simp
  have passed: "date_passed d now \<Longrightarrow> date_passed d now'" for d
    using assms(3) by (cases d) auto
  have "item_status j = Expired \<longrightarrow> currentStock j = 0" if "j \<in> set (inventoryItems s')" for j
  proof -
    from that obtain c where c: "c \<in> set (inventoryItems ?c)"
      and j: "j = (if item_id c \<in> item_id ` set ?sel then write_off who c else c)"
      unfolding items by auto
    from c obtain i where i: "i \<in> set (inventoryItems s)"
      and ci: "c = (if date_passed (item_expiryDate i) now \<and> item_status i \<noteq> Discontinued
                   then i\<lparr>item_status := Expired\<rparr> else i)"
      by (auto simp: checkExpiredItems_def)
    show ?thesis
    proof (cases "item_id c \<in> item_id ` set ?sel")
      case True
      then show ?thesis using j by (simp add: write_off_def)
    next
      case False
      then have "c \<notin> set ?sel" by auto
      then have ns: "\<not> expired_with_stock now' c" using c by simp
      have "0 \<le> currentStock i" using assms(2) i by auto
      moreover have "item_status i = Expired \<longrightarrow> currentStock i = 0"
        using assms(1) i by (auto simp: stock_invariant_def list_all_iff)
      ultimately show ?thesis
      proof (cases "date_passed (item_expiryDate i) now \<and> item_status i \<noteq> Discontinued")
        case True
        then have "c = i\<lparr>item_status := Expired\<rparr>" using ci by simp
        then show ?thesis
          using False j ns True passed [of "item_expiryDate i"] \<open>0 \<le> currentStock i\<close>
          by (simp add: expired_with_stock_def)
      next
        case no: False
        then have "c = i" using ci by simp
        then show ?thesis
          using False j \<open>item_status i = Expired \<longrightarrow> currentStock i = 0\<close> by simp
      qed
    qed
  qed
  then show "stock_invariant (snd (processExpiredItems now' who ?c))"
    by (simp add: processExpiredItems_def run stock_invariant_def list_all_iff)
qed

theorem sweep_after_marking_witness:
  "stock_invariant
     (kitchen [tomato\<lparr>currentStock := 4, item_expiryDate := Some 86400000\<rparr>] [] [])
   \<and> stock_invariant (snd (processExpiredItems 172802000 None (checkExpiredItems 172801000
        (kitchen [tomato\<lparr>currentStock := 4, item_expiryDate := Some 86400000\<rparr>] [] []))))"
proof -
  let ?s = "kitchen [tomato\<lparr>currentStock := 4, item_expiryDate := Some 86400000\<rparr>] [] []"
  have 1: "stock_invariant ?s"
    by (simp add: stock_invariant_def kitchen_def tomato_def)
  have 2: "\<forall>i\<in>set (inventoryItems ?s). 0 \<le> currentStock i"
    by (simp add: kitchen_def tomato_def)
  have 3: "(172801000::int) \<le> 172802000" by simp
  from sweep_after_marking [OF 1 2 3, of None] 1 show ?thesis by blast
qed

text \<open>The claim as stated fails: after the status marking an item is expired and still
  holds its stock.\<close>

theorem stock_invariant_counterexample:
  "stock_invariant
     (kitchen [tomato\<lparr>currentStock := 4, item_expiryDate := Some 86400000\<rparr>] [] [])
   \<and> \<not> stock_invariant (checkExpiredItems 172801000
        (kitchen [tomato\<lparr>currentStock := 4, item_expiryDate := Some 86400000\<rparr>] [] []))
   \<and> map (\<lambda>i. (item_status i, currentStock i)) (inventoryItems (checkExpiredItems 172801000
        (kitchen [tomato\<lparr>currentStock := 4, item_expiryDate := Some 86400000\<rparr>] [] [])))
       = [(Expired, 4)]"
  by (simp add: stock_invariant_def checkExpiredItems_def kitchen_def tomato_def)

text \<open>
  Claim C4.  When the entries of the walk that have not expired hold less than the requested
  quantity, \<open>deductFromDailyInventory\<close> fails with the required and the available amount,
  the stock items are as before (\<open>currentStock\<close> is not decremented), and every usable
  entry of the walk stays emptied.  Document ids are unique.
\<close>

theorem deduct_insufficient:
  assumes "distinct (map entry_id (dailyEntries s))"
    and "sum_list (map remainingQuantity
           (filter (usable now) (deduct_query (getTodayDate now) k (dailyEntries s)))) < q"
  shows "deductFromDailyInventory now k q uid s =
           (Inl (Insufficient_daily_stock q
                   (sum_list (map remainingQuantity
                      (filter (usable now) (deduct_query (getTodayDate now) k (dailyEntries s)))))),
            s\<lparr>dailyEntries :=
                map (\<lambda>x. if candidate (getTodayDate now) k x \<and> usable now x
                          then x\<lparr>remainingQuantity := 0\<rparr> else x) (dailyEntries s)\<rparr>)"
proof -
  let ?cs = "deduct_query (getTodayDate now) k (dailyEntries s)"
  let ?avail = "sum_list (map remainingQuantity (filter (usable now) ?cs))"
  note facts = deduct_query_facts [OF assms(1), of "getTodayDate now" k]
  have all: "taken now q ?cs x = (if usable now x then remainingQuantity x else 0)"
    if "x \<in> set ?cs" for x
    using taken_all [OF facts(3) that assms(2)] .
  have "sum_list (map (taken now q ?cs) ?cs)
          = sum_list (map (\<lambda>x. if usable now x then remainingQuantity x else 0) ?cs)"
    using all by (intro arg_cong [where f=sum_list] map_cong) auto
  also have "\<dots> = ?avail"
    by (simp add: sum_list_map_filter')
  finally have total: "sum_list (map (taken now q ?cs) ?cs) = ?avail" .
  have entries: "map (\<lambda>x. if x \<in> set ?cs
                      then x\<lparr>remainingQuantity := remainingQuantity x - taken now q ?cs x\<rparr>
                      else x) (dailyEntries s) =
        map (\<lambda>x. if candidate (getTodayDate now) k x \<and> usable now x
                  then x\<lparr>remainingQuantity := 0\<rparr> else x) (dailyEntries s)"
  proof (rule map_cong [OF refl])
    fix x assume "x \<in> set (dailyEntries s)"
    then have "x \<in> set ?cs \<longleftrightarrow> candidate (getTodayDate now) k x"
      using facts(4) by auto
    then show "(if x \<in> set ?cs
                      then x\<lparr>remainingQuantity := remainingQuantity x - taken now q ?cs x\<rparr>
                      else x) =
          (if candidate (getTodayDate now) k x \<and> usable now x
                  then x\<lparr>remainingQuantity := 0\<rparr> else x)"
      using all [of x] by simp
  qed
  have loop: "deduct_loop now ?cs q (dailyEntries s) =
      (q - ?avail, map (\<lambda>x. if candidate (getTodayDate now) k x \<and> usable now x
                  then x\<lparr>remainingQuantity := 0\<rparr> else x) (dailyEntries s))"
    using deduct_loop_closed [OF assms(1) facts(1-3), of now q] total entries by simp
  show ?thesis
    using assms(2) by (simp add: deductFromDailyInventory_def Let_def loop)
qed

theorem deduct_insufficient_witness:
  "deductFromDailyInventory 172801000 1 20 7
     (kitchen [tomato]
        [batch 50 172800000 5 (Some 259200000) 172800100,
         batch 51 172800000 10 None 172800200,
         batch 52 172800000 3 (Some 172800500) 172800300] [])
   = (Inl (Insufficient_daily_stock 20 15),
      kitchen [tomato]
        [(batch 50 172800000 5 (Some 259200000) 172800100)\<lparr>remainingQuantity := 0\<rparr>,
         (batch 51 172800000 10 None 172800200)\<lparr>remainingQuantity := 0\<rparr>,
         batch 52 172800000 3 (Some 172800500) 172800300] [])"
proof -
  let ?s = "kitchen [tomato]
        [batch 50 172800000 5 (Some 259200000) 172800100,
         batch 51 172800000 10 None 172800200,
         batch 52 172800000 3 (Some 172800500) 172800300] []"
  have d: "distinct (map entry_id (dailyEntries ?s))"
    by (simp add: kitchen_def batch_def)
  have q: "deduct_query (getTodayDate 172801000) 1 (dailyEntries ?s) =
             [batch 51 172800000 10 None 172800200,
              batch 52 172800000 3 (Some 172800500) 172800300,
              batch 50 172800000 5 (Some 259200000) 172800100]"
    by (simp add: deduct_query_def sort_entries_def getTodayDate_def day_ms_def kitchen_def
        batch_def)
  have a: "sum_list (map remainingQuantity (filter (usable 172801000)
              (deduct_query (getTodayDate 172801000) 1 (dailyEntries ?s)))) = 15"
    unfolding q by (simp add: usable_def batch_def)
  then have lt: "sum_list (map remainingQuantity (filter (usable 172801000)
              (deduct_query (getTodayDate 172801000) 1 (dailyEntries ?s)))) < 20"
    by simp
  show ?thesis
    unfolding deduct_insufficient [OF d lt, of 7] a
    by (simp add: kitchen_def batch_def candidate_def usable_def getTodayDate_def day_ms_def)
qed

text \<open>
  Claim C5.  When at least one line of an order request fails the availability check,
  \<open>createOrder\<close> ends with an error and the state is the one before the call: no order is
  stored, no ledger entry and no stock item is changed.
\<close>

theorem createOrder_all_or_nothing:
  "(\<exists>l\<in>set (rq_items body). line_unavailable now s l) \<longrightarrow>
     (\<exists>err. createOrder now req_user body s = (Inl err, s))"
proof
  assume bad: "\<exists>l\<in>set (rq_items body). line_unavailable now s l"
  have "\<exists>err. validate_items now s (rq_items body) [] 0 = Inl err"
  proof (cases "validate_items now s (rq_items body) [] 0")
    case (Inl err)
    then show ?thesis by simp
  next
    case (Inr r)
    from validate_items_Inr [OF this] bad show ?thesis by blast
  qed
  then show "\<exists>err. createOrder now req_user body s = (Inl err, s)"
    by (auto simp: createOrder_def split: option.splits)
qed

theorem createOrder_all_or_nothing_witness:
  "line_unavailable 172801000 (kitchen [tomato] [batch 50 172800000 5 None 172800100] [])
     \<lparr>ri_menuItem = Some 20, ri_quantity = 3, ri_unitPrice = 9\<rparr>
   \<and> (\<exists>err. createOrder 172801000 (Some chef) (salad_request 3)
               (kitchen [tomato] [batch 50 172800000 5 None 172800100] [])
             = (Inl err, kitchen [tomato] [batch 50 172800000 5 None 172800100] []))"
proof -
  let ?s = "kitchen [tomato] [batch 50 172800000 5 None 172800100] []"
  have bad: "line_unavailable 172801000 ?s \<lparr>ri_menuItem = Some 20, ri_quantity = 3, ri_unitPrice = 9\<rparr>"
    by (simp add: line_unavailable_def findById_menu_def findById_item_def kitchen_def salad_def
        tomato_def checkIngredientAvailability_def)
  then have "\<exists>l\<in>set (rq_items (salad_request 3)). line_unavailable 172801000 ?s l"
    by (simp add: salad_request_def)
  with createOrder_all_or_nothing [of "salad_request 3" 172801000 ?s "Some chef"] bad
  show ?thesis by blast
qed







text \<open>
  Claim C7, amended.  \<open>startNewDay\<close> fails, changing nothing, with the error of the ended
  day whenever today is already ended (this check runs first, also when yesterday is not
  ended), and with the error of the prior day when today is open and yesterday is not ended.  Otherwise it succeeds exactly when the
  stock item of every entry to carry still exists, and then appends, for exactly those of
  yesterday's entries with \<open>remainingQuantity > 0\<close> whose expiry date is absent or not in
  the past, one new entry dated today with \<open>quantity = remainingQuantity\<close> and the same
  item, expiry date and cost.  The stock items are never changed.
\<close>

theorem startNewDay_contract:
  "(day_isEnded (getTodayDate now) s \<longrightarrow> startNewDay now u s = (Inl Today_already_ended, s)) \<and>
   (\<not> day_isEnded (getTodayDate now) s \<and> \<not> day_isEnded (getTodayDate now - day_ms) s \<longrightarrow>
      startNewDay now u s = (Inl Yesterday_not_ended, s)) \<and>
   (\<not> day_isEnded (getTodayDate now) s \<and> day_isEnded (getTodayDate now - day_ms) s
      \<and> (\<forall>e\<in>set (dailyEntries s). carryable (getTodayDate now - day_ms) now e
            \<longrightarrow> findById_item (entry_inventoryItem e) s \<noteq> None) \<longrightarrow>
      (\<exists>r. startNewDay now u s =
         (Inr r, s\<lparr>dailyEntries := dailyEntries s @
                      carried_batches (next_id s) now (user_id u)
                        (filter (carryable (getTodayDate now - day_ms) now) (dailyEntries s)),
                    next_id := next_id s
                      + length (filter (carryable (getTodayDate now - day_ms) now)
                                  (dailyEntries s))\<rparr>)
         \<and> carriedForwardCount r
             = length (filter (carryable (getTodayDate now - day_ms) now) (dailyEntries s)))) \<and>
   (\<forall>r s'. startNewDay now u s = (Inr r, s') \<longrightarrow>
      (\<forall>e\<in>set (dailyEntries s). carryable (getTodayDate now - day_ms) now e
            \<longrightarrow> findById_item (entry_inventoryItem e) s \<noteq> None)) \<and>
   map (\<lambda>b. (entry_date b, entry_inventoryItem b, entry_quantity b, remainingQuantity b,
              entry_expiryDate b, entry_cost b))
     (carried_batches (next_id s) now (user_id u)
        (filter (carryable (getTodayDate now - day_ms) now) (dailyEntries s))) =
   map (\<lambda>e. (getTodayDate now, entry_inventoryItem e, remainingQuantity e, remainingQuantity e,
              entry_expiryDate e, entry_cost e))
     (filter (carryable (getTodayDate now - day_ms) now) (dailyEntries s)) \<and>
   inventoryItems (snd (startNewDay now u s)) = inventoryItems s"
proof (intro conjI impI allI)
  assume "day_isEnded (getTodayDate now) s"
  then show "startNewDay now u s = (Inl Today_already_ended, s)"
    by (simp add: startNewDay_def)
next
  assume "\<not> day_isEnded (getTodayDate now) s \<and> \<not> day_isEnded (getTodayDate now - day_ms) s"
  then show "startNewDay now u s = (Inl Yesterday_not_ended, s)"
    by (simp add: startNewDay_def)
next
  assume "\<not> day_isEnded (getTodayDate now) s \<and> day_isEnded (getTodayDate now - day_ms) s
      \<and> (\<forall>e\<in>set (dailyEntries s). carryable (getTodayDate now - day_ms) now e
            \<longrightarrow> findById_item (entry_inventoryItem e) s \<noteq> None)"
  then show "\<exists>r. startNewDay now u s =
         (Inr r, s\<lparr>dailyEntries := dailyEntries s @
                      carried_batches (next_id s) now (user_id u)
                        (filter (carryable (getTodayDate now - day_ms) now) (dailyEntries s)),
                    next_id := next_id s
                      + length (filter (carryable (getTodayDate now - day_ms) now)
                                  (dailyEntries s))\<rparr>)
         \<and> carriedForwardCount r
             = length (filter (carryable (getTodayDate now - day_ms) now) (dailyEntries s))"
    using startNewDay_success [of now s u] by blast
next
  fix r s'
  assume "startNewDay now u s = (Inr r, s')"
  then show "\<forall>e\<in>set (dailyEntries s). carryable (getTodayDate now - day_ms) now e
            \<longrightarrow> findById_item (entry_inventoryItem e) s \<noteq> None"
    by (rule startNewDay_Inr(3))
next
  show "map (\<lambda>b. (entry_date b, entry_inventoryItem b, entry_quantity b, remainingQuantity b,
              entry_expiryDate b, entry_cost b))
     (carried_batches (next_id s) now (user_id u)
        (filter (carryable (getTodayDate now - day_ms) now) (dailyEntries s))) =
   map (\<lambda>e. (getTodayDate now, entry_inventoryItem e, remainingQuantity e, remainingQuantity e,
              entry_expiryDate e, entry_cost e))
     (filter (carryable (getTodayDate now - day_ms) now) (dailyEntries s))"
    by (rule carried_batches_fields)
next
  show "inventoryItems (snd (startNewDay now u s)) = inventoryItems s"
    using carry_loop_items [of now "getTodayDate now" "user_id u"
        "filter (\<lambda>e. entry_date e = getTodayDate now - day_ms \<and> remainingQuantity e > 0)
           (dailyEntries s)" "[]" s]
    by (auto simp: startNewDay_def Let_def split: prod.splits sum.splits)
qed

theorem startNewDay_contract_witness:
  "\<not> day_isEnded (getTodayDate 172801000)
       (kitchen [tomato]
          [batch 50 86400000 5 None 86400100, batch 51 86400000 3 (Some 172800500) 86400200] [])
   \<and> day_isEnded (getTodayDate 172801000 - day_ms)
       (kitchen [tomato]
          [batch 50 86400000 5 None 86400100, batch 51 86400000 3 (Some 172800500) 86400200] [])
   \<and> (\<exists>r. startNewDay 172801000 chef
         (kitchen [tomato]
            [batch 50 86400000 5 None 86400100, batch 51 86400000 3 (Some 172800500) 86400200] [])
       = (Inr r,
          (kitchen [tomato]
            [batch 50 86400000 5 None 86400100, batch 51 86400000 3 (Some 172800500) 86400200,
             \<lparr>entry_id = 100, entry_date = 172800000, entry_inventoryItem = 1,
              entry_quantity = 5, entry_cost = Some 2, entry_expiryDate = None,
              remainingQuantity = 5, addedBy = 7, createdAt = 172801000\<rparr>] [])
            \<lparr>next_id := 101\<rparr>)
       \<and> carriedForwardCount r = 1)"
proof -
  let ?s = "kitchen [tomato]
          [batch 50 86400000 5 None 86400100, batch 51 86400000 3 (Some 172800500) 86400200] []"
  have t: "getTodayDate 172801000 = 172800000"
    by (simp add: getTodayDate_def day_ms_def)
  have 1: "\<not> day_isEnded (getTodayDate 172801000) ?s"
    by (simp add: t day_isEnded_def kitchen_def)
  have 2: "day_isEnded (getTodayDate 172801000 - day_ms) ?s"
    by (simp add: t day_ms_def day_isEnded_def kitchen_def)
  have 3: "\<forall>e\<in>set (dailyEntries ?s). carryable (getTodayDate 172801000 - day_ms) 172801000 e
            \<longrightarrow> findById_item (entry_inventoryItem e) ?s \<noteq> None"
    by (simp add: kitchen_def batch_def findById_item_def tomato_def)
  have sel: "filter (carryable (getTodayDate 172801000 - day_ms) 172801000) (dailyEntries ?s)
               = [batch 50 86400000 5 None 86400100]"
    by (simp add: t day_ms_def carryable_def kitchen_def batch_def)
  from startNewDay_contract [of 172801000 ?s chef] 1 2 3
  obtain r where "startNewDay 172801000 chef ?s =
         (Inr r, ?s\<lparr>dailyEntries := dailyEntries ?s @
                      carried_batches (next_id ?s) 172801000 (user_id chef)
                        (filter (carryable (getTodayDate 172801000 - day_ms) 172801000)
                           (dailyEntries ?s)),
                    next_id := next_id ?s
                      + length (filter (carryable (getTodayDate 172801000 - day_ms) 172801000)
                                  (dailyEntries ?s))\<rparr>)"
     and "carriedForwardCount r
             = length (filter (carryable (getTodayDate 172801000 - day_ms) 172801000)
                         (dailyEntries ?s))"
    by blast
  then have "startNewDay 172801000 chef ?s
       = (Inr r,
          (kitchen [tomato]
            [batch 50 86400000 5 None 86400100, batch 51 86400000 3 (Some 172800500) 86400200,
             \<lparr>entry_id = 100, entry_date = 172800000, entry_inventoryItem = 1,
              entry_quantity = 5, entry_cost = Some 2, entry_expiryDate = None,
              remainingQuantity = 5, addedBy = 7, createdAt = 172801000\<rparr>] [])
            \<lparr>next_id := 101\<rparr>)
       \<and> carriedForwardCount r = 1"
    unfolding sel
    by (simp add: t kitchen_def batch_def chef_def carried_batches_def carried_entry_def)
  with 1 2 show ?thesis by blast
qed

text \<open>The claim as stated fails where both conditions hold: today is ended, yesterday is
  not, and the error is the one of the ended day, not the one of the prior day.\<close>

theorem startNewDay_overlap_counterexample:
  "day_isEnded (getTodayDate 172801000)
     ((kitchen [tomato] [] [])
        \<lparr>dayStatuses := [\<lparr>day_date = 172800000, isEnded = True, endedAt = Some 172800500,
                           endedBy = Some 7\<rparr>]\<rparr>)
   \<and> \<not> day_isEnded (getTodayDate 172801000 - day_ms)
     ((kitchen [tomato] [] [])
        \<lparr>dayStatuses := [\<lparr>day_date = 172800000, isEnded = True, endedAt = Some 172800500,
                           endedBy = Some 7\<rparr>]\<rparr>)
   \<and> fst (startNewDay 172801000 chef
     ((kitchen [tomato] [] [])
        \<lparr>dayStatuses := [\<lparr>day_date = 172800000, isEnded = True, endedAt = Some 172800500,
                           endedBy = Some 7\<rparr>]\<rparr>)) = Inl Today_already_ended
   \<and> fst (startNewDay 172801000 chef
     ((kitchen [tomato] [] [])
        \<lparr>dayStatuses := [\<lparr>day_date = 172800000, isEnded = True, endedAt = Some 172800500,
                           endedBy = Some 7\<rparr>]\<rparr>)) \<noteq> Inl Yesterday_not_ended"
  by (simp add: startNewDay_def getTodayDate_def day_ms_def day_isEnded_def kitchen_def)

text \<open>
  Claim C8, amended.  The expiry sweep processes exactly the stock items with
  \<open>expiryDate < now\<close>, \<open>currentStock > 0\<close> and \<open>status \<noteq> discontinued\<close>: each of them
  gets one waste log of category \<open>expired\<close> with its \<open>currentStock\<close> as quantity (the
  waste log holds no cost), and is left with \<open>currentStock = 0\<close> and
  \<open>status = expired\<close>; the other items are untouched.  The waste cost of quantity times
  cost (0 without cost) is reported, item by item, in the returned summary, which also
  holds the number of processed items and the sum of the waste costs.  Document ids are
  unique.
\<close>

theorem expiry_sweep:
  assumes "distinct (map item_id (inventoryItems s))"
  shows "inventoryItems (snd (processExpiredItems now who s)) =
           map (\<lambda>i. if expired_with_stock now i then write_off who i else i) (inventoryItems s)
       \<and> map (\<lambda>(k, w). (waste_ingredient w, waste_category w, waste_quantity w))
           (wasteLogs (snd (processExpiredItems now who s))) =
           map (\<lambda>(k, w). (waste_ingredient w, waste_category w, waste_quantity w)) (wasteLogs s)
             @ map (\<lambda>i. (item_id i, ''expired'', currentStock i))
                 (filter (expired_with_stock now) (inventoryItems s))
       \<and> map (\<lambda>r. (processed_itemId r, processed_quantity r, processed_wasteCost r))
           (processedItems (fst (processExpiredItems now who s))) =
           map (\<lambda>i. (item_id i, currentStock i,
                      case item_cost i of None \<Rightarrow> 0 | Some c \<Rightarrow> currentStock i * c))
             (filter (expired_with_stock now) (inventoryItems s))
       \<and> processedCount (fst (processExpiredItems now who s)) =
           length (filter (expired_with_stock now) (inventoryItems s))
       \<and> totalWasteCost (fst (processExpiredItems now who s)) =
           (\<Sum>i\<leftarrow>filter (expired_with_stock now) (inventoryItems s).
              case item_cost i of None \<Rightarrow> 0 | Some c \<Rightarrow> currentStock i * c)"
proof -
  let ?sel = "filter (expired_with_stock now) (inventoryItems s)"
  obtain p t s' where run: "process_loop now who ?sel [] 0 s = ((p, t), s')"
    by (metis surj_pair)
  have wc: "waste_cost = (\<lambda>i. case item_cost i of None \<Rightarrow> 0 | Some c \<Rightarrow> currentStock i * c)"
    by (auto simp: waste_cost_def fun_eq_iff split: option.splits)
  have res: "processExpiredItems now who s =
      (\<lparr>success = True, processedCount = length p, totalWasteCost = t, processedItems = p\<rparr>, s')"
    by (simp add: processExpiredItems_def run)
  have items: "inventoryItems s' =
      map (\<lambda>i. if item_id i \<in> item_id ` set ?sel then write_off who i else i) (inventoryItems s)"
    using process_loop_items [OF selected_have_expiry, where now1=now and its1="inventoryItems s" and now=now and who=who and p="[]" and t=0 and s=s] run
    by simp
  have items': "inventoryItems s' =
      map (\<lambda>i. if expired_with_stock now i then write_off who i else i) (inventoryItems s)"
    unfolding items using selected_ids [OF assms] by (intro map_cong) auto
  have out: "map (\<lambda>r. (processed_itemId r, processed_quantity r, processed_wasteCost r)) p =
       map (\<lambda>i. (item_id i, currentStock i, waste_cost i)) ?sel" "t = sum_list (map waste_cost ?sel)"
    using process_loop_result [OF selected_have_expiry, where now1=now and its1="inventoryItems s" and now=now and who=who and p="[]" and t=0 and s=s] run
    by simp_all
  have len: "length p = length ?sel"
    using arg_cong [OF out(1), of length] by simp
  have waste: "map (\<lambda>(k, w). (waste_ingredient w, waste_category w, waste_quantity w)) (wasteLogs s') =
     map (\<lambda>(k, w). (waste_ingredient w, waste_category w, waste_quantity w)) (wasteLogs s)
       @ map (\<lambda>i. (item_id i, ''expired'', currentStock i)) ?sel"
    using process_loop_waste [OF selected_have_expiry, where now1=now and its1="inventoryItems s" and now=now and who=who and p="[]" and t=0 and s=s] run
    by simp
  have cost: "t = (\<Sum>i\<leftarrow>?sel. case item_cost i of None \<Rightarrow> 0 | Some c \<Rightarrow> currentStock i * c)"
    using out(2) by (simp add: wc)
  have rows: "map (\<lambda>r. (processed_itemId r, processed_quantity r, processed_wasteCost r)) p =
       map (\<lambda>i. (item_id i, currentStock i,
                  case item_cost i of None \<Rightarrow> 0 | Some c \<Rightarrow> currentStock i * c)) ?sel"
    using out(1) by (simp add: wc)
  show ?thesis
    unfolding res fst_conv snd_conv sweep_result.simps
    by (intro conjI) (rule items' waste rows len cost)+
qed

text \<open>The scenario of the spec: stock 4, cost 2, expired yesterday.\<close>

theorem expiry_sweep_witness:
  "distinct (map item_id (inventoryItems
      (kitchen [tomato\<lparr>currentStock := 4, item_expiryDate := Some 86400000\<rparr>] [] [])))
   \<and> map (\<lambda>i. (currentStock i, item_status i)) (inventoryItems (snd (processExpiredItems
        172801000 (Some 7)
        (kitchen [tomato\<lparr>currentStock := 4, item_expiryDate := Some 86400000\<rparr>] [] []))))
       = [(0, Expired)]
   \<and> map (\<lambda>(k, w). (waste_ingredient w, waste_category w, waste_quantity w))
        (wasteLogs (snd (processExpiredItems 172801000 (Some 7)
        (kitchen [tomato\<lparr>currentStock := 4, item_expiryDate := Some 86400000\<rparr>] [] []))))
       = [(1, ''expired'', 4)]
   \<and> processedCount (fst (processExpiredItems 172801000 (Some 7)
        (kitchen [tomato\<lparr>currentStock := 4, item_expiryDate := Some 86400000\<rparr>] [] []))) = 1
   \<and> totalWasteCost (fst (processExpiredItems 172801000 (Some 7)
        (kitchen [tomato\<lparr>currentStock := 4, item_expiryDate := Some 86400000\<rparr>] [] []))) = 8"
proof -
  let ?s = "kitchen [tomato\<lparr>currentStock := 4, item_expiryDate := Some 86400000\<rparr>] [] []"
  have d: "distinct (map item_id (inventoryItems ?s))"
    by (simp add: kitchen_def)
  have sel: "filter (expired_with_stock 172801000) (inventoryItems ?s)
               = [tomato\<lparr>currentStock := 4, item_expiryDate := Some 86400000\<rparr>]"
    by (simp add: expired_with_stock_def kitchen_def tomato_def)
  from expiry_sweep [OF d, of 172801000 "Some 7"] d show ?thesis
    unfolding sel
    by (simp add: kitchen_def expired_with_stock_def write_off_def tomato_def)
qed

text \<open>The claim as stated fails: in the scenario of the spec the waste log that is written
  holds the quantity 4 and no cost; the cost 8 is in the summary that is returned.\<close>

theorem waste_log_without_cost_counterexample:
  "wasteLogs (snd (processExpiredItems 172801000 (Some 7)
        (kitchen [tomato\<lparr>currentStock := 4, item_expiryDate := Some 86400000\<rparr>] [] [])))
     = [(100, \<lparr>waste_ingredient = 1, waste_category = ''expired'', waste_quantity = 4,
               waste_unit = ''kg'', waste_loggedBy = Some 7, waste_loggedAt = 172801000,
               waste_expiredOn = 86400000\<rparr>)]
   \<and> processedItems (fst (processExpiredItems 172801000 (Some 7)
        (kitchen [tomato\<lparr>currentStock := 4, item_expiryDate := Some 86400000\<rparr>] [] [])))
     = [\<lparr>processed_itemId = 1, processed_name = ''tomato'', processed_quantity = 4,
         processed_unit = ''kg'', processed_wasteCost = 8, processed_wasteLogId = 100\<rparr>]"
  by (simp add: processExpiredItems_def expired_with_stock_def waste_cost_def kitchen_def
      tomato_def create_inventorylog_def findByIdAndUpdate_item_def)

text \<open>
  Claim C9.  \<open>checkIngredientAvailability\<close> reports a missing ingredient exactly for the
  ingredients that are unknown, expired or short.  When the list of missing ingredients is
  not empty the result is \<open>out_of_stock\<close> and not available; otherwise it is
  \<open>low_stock\<close> and available when some ingredient meets the soft low-stock condition
  (status \<open>low_stock\<close>, or a positive threshold the stock does not exceed); otherwise it is
  \<open>available\<close>.
\<close>

theorem availability_classification:
  "(missingIngredients (checkIngredientAvailability now s ings q) = []
      \<longleftrightarrow> (\<forall>ing\<in>set ings. \<not> unavailable now s q ing)) \<and>
   (missingIngredients (checkIngredientAvailability now s ings q) \<noteq> [] \<longrightarrow>
      stockStatus (checkIngredientAvailability now s ings q) = ''out_of_stock''
      \<and> \<not> isAvailable (checkIngredientAvailability now s ings q)) \<and>
   (missingIngredients (checkIngredientAvailability now s ings q) = []
      \<and> (\<exists>ing\<in>set ings. soft_low_stock s ing) \<longrightarrow>
      stockStatus (checkIngredientAvailability now s ings q) = ''low_stock''
      \<and> isAvailable (checkIngredientAvailability now s ings q)) \<and>
   (missingIngredients (checkIngredientAvailability now s ings q) = []
      \<and> \<not> (\<exists>ing\<in>set ings. soft_low_stock s ing) \<longrightarrow>
      stockStatus (checkIngredientAvailability now s ings q) = ''available''
      \<and> isAvailable (checkIngredientAvailability now s ings q))"
proof -
  obtain m l oos where r: "check_loop now s q ings [] False False = (m, l, oos)"
    by (cases "check_loop now s q ings [] False False") auto
  have len: "length m = length (filter (unavailable now s q) ings)"
    using check_loop_missing [of now s q ings "[]" False False] r by simp
  have empty: "m = [] \<longleftrightarrow> (\<forall>ing\<in>set ings. \<not> unavailable now s q ing)"
    using len by (auto simp: filter_empty_conv)
  have out: "oos \<Longrightarrow> m \<noteq> []"
    using check_loop_out [of now s q ings "[]" False False] r empty
    by (auto simp: unavailable_def split: option.splits)
  have low: "m = [] \<Longrightarrow> l = (\<exists>ing\<in>set ings. soft_low_stock s ing)"
    using check_loop_low [of ings now s q "[]" False False] r empty by auto
  have miss: "missingIngredients (checkIngredientAvailability now s ings q) = m"
    by (simp add: checkIngredientAvailability_def r)
  show ?thesis
    unfolding miss using empty out low
    by (auto simp: checkIngredientAvailability_def r)
qed

theorem availability_classification_witness:
  "missingIngredients (checkIngredientAvailability 172801000
       (kitchen [tomato\<lparr>minThreshold := 10\<rparr>] [] []) (ingredients salad) 1) = []
   \<and> (\<exists>ing\<in>set (ingredients salad).
         soft_low_stock (kitchen [tomato\<lparr>minThreshold := 10\<rparr>] [] []) ing)
   \<and> stockStatus (checkIngredientAvailability 172801000
       (kitchen [tomato\<lparr>minThreshold := 10\<rparr>] [] []) (ingredients salad) 1) = ''low_stock''
   \<and> isAvailable (checkIngredientAvailability 172801000
       (kitchen [tomato\<lparr>minThreshold := 10\<rparr>] [] []) (ingredients salad) 1)"
proof -
  let ?s = "kitchen [tomato\<lparr>minThreshold := 10\<rparr>] [] []"
  have ok: "\<forall>ing\<in>set (ingredients salad). \<not> unavailable 172801000 ?s 1 ing"
    by (simp add: salad_def unavailable_def findById_item_def kitchen_def tomato_def)
  have soft: "\<exists>ing\<in>set (ingredients salad). soft_low_stock ?s ing"
    by (simp add: salad_def soft_low_stock_def findById_item_def kitchen_def tomato_def)
  from availability_classification [of 172801000 ?s "ingredients salad" 1] ok soft
  show ?thesis by blast
qed

text \<open>
  Claim C10, amended.  \<open>startNewDay\<close> does not check whether the carry-forward has already
  run: after a successful call, a second call later on the same day succeeds as well and
  appends a second fresh copy of every carried-forward entry that has not expired by then
  (of every one, when no expiry date lies between the two calls).
\<close>

theorem startNewDay_twice:
  assumes same_day: "getTodayDate now2 = getTodayDate now1" and later: "now1 \<le> now2"
    and first: "startNewDay now1 u s = (Inr r1, s1)"
  shows "\<exists>r2 s2. startNewDay now2 u s1 = (Inr r2, s2) \<and>
           dailyEntries s2 =
             dailyEntries s
               @ carried_batches (next_id s) now1 (user_id u)
                   (filter (carryable (getTodayDate now1 - day_ms) now1) (dailyEntries s))
               @ carried_batches (next_id s1) now2 (user_id u)
                   (filter (\<lambda>e. carryable (getTodayDate now1 - day_ms) now1 e
                                 \<and> \<not> date_passed (entry_expiryDate e) now2) (dailyEntries s))"
proof -
  let ?t = "getTodayDate now1"
  let ?y = "?t - day_ms"
  let ?C1 = "carried_batches (next_id s) now1 (user_id u) (filter (carryable ?y now1) (dailyEntries s))"
  note ok = startNewDay_Inr [OF first]
  from startNewDay_success [OF ok, of u] first
  have s1: "s1 = s\<lparr>dailyEntries := dailyEntries s @ ?C1,
                    next_id := next_id s + length (filter (carryable ?y now1) (dailyEntries s))\<rparr>"
    by auto
  have days: "day_isEnded d s1 = day_isEnded d s" for d
    by (simp add: s1 day_isEnded_def)
  have items: "findById_item k s1 = findById_item k s" for k
    by (simp add: s1 findById_item_def)
  have "day_ms \<noteq> 0" by (simp add: day_ms_def)
  then have notC: "\<not> carryable ?y now2 b" if "b \<in> set ?C1" for b
    using carried_batches_today [OF that] by (simp add: carryable_def)
  have sel: "filter (carryable ?y now2) (dailyEntries s1) =
       filter (\<lambda>e. carryable ?y now1 e \<and> \<not> date_passed (entry_expiryDate e) now2) (dailyEntries s)"
  proof -
    have "filter (carryable ?y now2) ?C1 = []"
      using notC by (simp add: filter_empty_conv)
    moreover have "carryable ?y now2 = (\<lambda>e. carryable ?y now1 e \<and> \<not> date_passed (entry_expiryDate e) now2)"
      using date_passed_mono [OF _ later] by (auto simp: carryable_def fun_eq_iff)
    ultimately show ?thesis by (simp add: s1)
  qed
  have res: "\<forall>e\<in>set (dailyEntries s1). carryable (getTodayDate now2 - day_ms) now2 e
            \<longrightarrow> findById_item (entry_inventoryItem e) s1 \<noteq> None"
  proof (intro ballI impI)
    fix e assume e: "e \<in> set (dailyEntries s1)" and c: "carryable (getTodayDate now2 - day_ms) now2 e"
    then have "e \<in> set (dailyEntries s)" using notC by (auto simp: s1 same_day)
    moreover have "carryable ?y now1 e"
      using c date_passed_mono [OF _ later, of "entry_expiryDate e"] by (auto simp: carryable_def same_day)
    ultimately show "findById_item (entry_inventoryItem e) s1 \<noteq> None"
      using ok(3) by (simp add: items)
  qed
  from startNewDay_success [of now2 s1 u] ok(1,2) res
  obtain r2 where "startNewDay now2 u s1 =
         (Inr r2, s1\<lparr>dailyEntries := dailyEntries s1 @
                      carried_batches (next_id s1) now2 (user_id u)
                        (filter (carryable (getTodayDate now2 - day_ms) now2) (dailyEntries s1)),
                    next_id := next_id s1
                      + length (filter (carryable (getTodayDate now2 - day_ms) now2) (dailyEntries s1))\<rparr>)"
    by (auto simp: same_day days)
  then show ?thesis
    using sel by (simp add: same_day s1)
qed

text \<open>The claim as stated fails for a batch that expires between the two calls: the
  second call succeeds and adds no second copy of it.\<close>

theorem startNewDay_twice_counterexample:
  "day_isEnded (getTodayDate 172801000 - day_ms) (kitchen [tomato] [batch 50 86400000 5 (Some 172802000) 86400500] [])
   \<and> \<not> day_isEnded (getTodayDate 172801000) (kitchen [tomato] [batch 50 86400000 5 (Some 172802000) 86400500] [])
   \<and> getTodayDate 172803000 = getTodayDate 172801000
   \<and> map remainingQuantity (filter (\<lambda>e. entry_date e = getTodayDate 172801000)
        (dailyEntries (snd (startNewDay 172801000 chef
           (kitchen [tomato] [batch 50 86400000 5 (Some 172802000) 86400500] []))))) = [5]
   \<and> (\<exists>r. fst (startNewDay 172803000 chef (snd (startNewDay 172801000 chef
           (kitchen [tomato] [batch 50 86400000 5 (Some 172802000) 86400500] [])))) = Inr r)
   \<and> map remainingQuantity (filter (\<lambda>e. entry_date e = getTodayDate 172801000)
        (dailyEntries (snd (startNewDay 172803000 chef (snd (startNewDay 172801000 chef
           (kitchen [tomato] [batch 50 86400000 5 (Some 172802000) 86400500] []))))))) = [5]"
  by (simp add: startNewDay_def getTodayDate_def day_ms_def day_isEnded_def kitchen_def
      tomato_def batch_def chef_def findById_item_def carried_entry_def)

theorem startNewDay_twice_witness:
  "getTodayDate 172803000 = getTodayDate 172801000 \<and> (172801000::int) \<le> 172803000
   \<and> (\<exists>r1. fst (startNewDay 172801000 chef
                  (kitchen [tomato] [batch 50 86400000 5 None 86400500] [])) = Inr r1)
   \<and> (\<exists>r2 s2. startNewDay 172803000 chef (snd (startNewDay 172801000 chef
                  (kitchen [tomato] [batch 50 86400000 5 None 86400500] []))) = (Inr r2, s2)
        \<and> map (\<lambda>e. (entry_date e, remainingQuantity e)) (dailyEntries s2)
            = [(86400000, 5), (172800000, 5), (172800000, 5)])"
proof -
  let ?s = "kitchen [tomato] [batch 50 86400000 5 None 86400500] []"
  have t: "getTodayDate 172801000 = 172800000" "getTodayDate 172803000 = 172800000"
    by (simp_all add: getTodayDate_def day_ms_def)
  obtain r1 s1 where first: "startNewDay 172801000 chef ?s = (Inr r1, s1)"
    by (simp add: startNewDay_def t day_ms_def day_isEnded_def kitchen_def batch_def
        findById_item_def tomato_def)
  have same: "getTodayDate 172803000 = getTodayDate 172801000" by (simp add: t)
  have later: "(172801000::int) \<le> 172803000" by simp
  have sel: "filter (carryable (getTodayDate 172801000 - day_ms) 172801000) (dailyEntries ?s)
               = [batch 50 86400000 5 None 86400500]"
    "filter (\<lambda>e. carryable (getTodayDate 172801000 - day_ms) 172801000 e
                  \<and> \<not> date_passed (entry_expiryDate e) 172803000) (dailyEntries ?s)
               = [batch 50 86400000 5 None 86400500]"
    by (simp_all add: t day_ms_def carryable_def kitchen_def batch_def)
  from startNewDay_twice [OF same later first]
  obtain r2 s2 where second: "startNewDay 172803000 chef s1 = (Inr r2, s2)"
    and entries: "dailyEntries s2 =
             dailyEntries ?s
               @ carried_batches (next_id ?s) 172801000 (user_id chef)
                   (filter (carryable (getTodayDate 172801000 - day_ms) 172801000) (dailyEntries ?s))
               @ carried_batches (next_id s1) 172803000 (user_id chef)
                   (filter (\<lambda>e. carryable (getTodayDate 172801000 - day_ms) 172801000 e
                                 \<and> \<not> date_passed (entry_expiryDate e) 172803000)
                      (dailyEntries ?s))"
    by blast
  have "map (\<lambda>e. (entry_date e, remainingQuantity e)) (dailyEntries s2)
            = [(86400000, 5), (172800000, 5), (172800000, 5)]"
    unfolding entries sel
    by (simp add: t kitchen_def batch_def carried_batches_def carried_entry_def)
  with second first same later show ?thesis by auto
qed

end
